theory Spec2Isabelle
  imports Main "HOL-Library.AList"
begin

section \<open>Strings\<close>

text \<open>
  A Python \<^verbatim>\<open>str\<close> is a sequence of Unicode code points: \<^verbatim>\<open>len\<close> counts code points and
  the headlines are Cyrillic. A string is therefore a list of code points, and the
  literals of \<^verbatim>\<open>main.py\<close> are written as the numbers \<^verbatim>\<open>ord\<close> gives.
\<close>

type_synonym cp = int
type_synonym pystr = "cp list"

text \<open>\<^verbatim>\<open>str.isspace\<close> of one character; the regular expression class \<^verbatim>\<open>\s\<close> is the same set.\<close>

definition is_space :: "cp \<Rightarrow> bool" where
  "is_space c = (c \<in> set [9, 10, 11, 12, 13, 28, 29, 30, 31, 32, 133, 160, 5760,
     8192, 8193, 8194, 8195, 8196, 8197, 8198, 8199, 8200, 8201, 8202,
     8232, 8233, 8239, 8287, 12288])"

text \<open>
  The class \<^verbatim>\<open>\d\<close> of a \<^verbatim>\<open>str\<close> pattern is the Unicode category Nd, which comes in runs
  of ten digits; \<open>digit_zeros\<close> lists the zero of each run.
\<close>

definition digit_zeros :: "cp list" where
  "digit_zeros = [48, 1632, 1776, 1984, 2406, 2534, 2662, 2790, 2918, 3046, 3174, 3302,
     3430, 3558, 3664, 3792, 3872, 4160, 4240, 6112, 6160, 6470, 6608, 6784, 6800, 6992,
     7088, 7232, 7248, 42528, 43216, 43264, 43472, 43504, 43600, 44016, 65296, 66720,
     68912, 69734, 69872, 69942, 70096, 70384, 70736, 70864, 71248, 71360, 71472, 71904,
     72016, 72784, 73040, 73120, 92768, 92864, 93008, 120782, 120792, 120802, 120812,
     120822, 123200, 123632, 125264, 130032]"

definition is_digit :: "cp \<Rightarrow> bool" where
  "is_digit c = list_ex (\<lambda>z. z \<le> c \<and> c < z + 10) digit_zeros"

text \<open>\<^verbatim>\<open>str.strip()\<close>: leading and trailing whitespace removed.\<close>

definition strip :: "pystr \<Rightarrow> pystr" where
  "strip s = rev (dropWhile is_space (rev (dropWhile is_space s)))"

text \<open>
  \<^verbatim>\<open>str.lower()\<close>, with the tables of Python 3.11 (Unicode 14). A row
  \<open>(lo, hi, step, delta)\<close> of \<open>lower_table\<close> says that the code points \<open>lo\<close>,
  \<open>lo + step\<close>, ... up to \<open>hi\<close> become lower case by adding \<open>delta\<close>; the rows are
  disjoint and in increasing order, and a code point of no row is its own lower case.
  The capital I with a dot above (U+0130) is the one character whose lower case has two
  code points.
\<close>

definition lower_table :: "(int \<times> int \<times> int \<times> int) list" where
  "lower_table =
     [(65, 90, 1, 32), (192, 214, 1, 32), (216, 222, 1, 32), (256, 302, 2, 1),
      (306, 310, 2, 1), (313, 327, 2, 1), (330, 374, 2, 1), (376, 376, 1, -121),
      (377, 381, 2, 1), (385, 385, 1, 210), (386, 388, 2, 1), (390, 390, 1, 206),
      (391, 391, 1, 1), (393, 394, 1, 205), (395, 395, 1, 1), (398, 398, 1, 79),
      (399, 399, 1, 202), (400, 400, 1, 203), (401, 401, 1, 1), (403, 403, 1, 205),
      (404, 404, 1, 207), (406, 406, 1, 211), (407, 407, 1, 209), (408, 408, 1, 1),
      (412, 412, 1, 211), (413, 413, 1, 213), (415, 415, 1, 214), (416, 420, 2, 1),
      (422, 422, 1, 218), (423, 423, 1, 1), (425, 425, 1, 218), (428, 428, 1, 1),
      (430, 430, 1, 218), (431, 431, 1, 1), (433, 434, 1, 217), (435, 437, 2, 1),
      (439, 439, 1, 219), (440, 440, 1, 1), (444, 444, 1, 1), (452, 452, 1, 2),
      (453, 453, 1, 1), (455, 455, 1, 2), (456, 456, 1, 1), (458, 458, 1, 2),
      (459, 475, 2, 1), (478, 494, 2, 1), (497, 497, 1, 2), (498, 500, 2, 1),
      (502, 502, 1, -97), (503, 503, 1, -56), (504, 542, 2, 1), (544, 544, 1, -130),
      (546, 562, 2, 1), (570, 570, 1, 10795), (571, 571, 1, 1), (573, 573, 1, -163),
      (574, 574, 1, 10792), (577, 577, 1, 1), (579, 579, 1, -195), (580, 580, 1, 69),
      (581, 581, 1, 71), (582, 590, 2, 1), (880, 882, 2, 1), (886, 886, 1, 1),
      (895, 895, 1, 116), (902, 902, 1, 38), (904, 906, 1, 37), (908, 908, 1, 64),
      (910, 911, 1, 63), (913, 929, 1, 32), (931, 939, 1, 32), (975, 975, 1, 8),
      (984, 1006, 2, 1), (1012, 1012, 1, -60), (1015, 1015, 1, 1), (1017, 1017, 1, -7),
      (1018, 1018, 1, 1), (1021, 1023, 1, -130), (1024, 1039, 1, 80),
      (1040, 1071, 1, 32), (1120, 1152, 2, 1), (1162, 1214, 2, 1), (1216, 1216, 1, 15),
      (1217, 1229, 2, 1), (1232, 1326, 2, 1), (1329, 1366, 1, 48),
      (4256, 4293, 1, 7264), (4295, 4295, 1, 7264), (4301, 4301, 1, 7264),
      (5024, 5103, 1, 38864), (5104, 5109, 1, 8), (7312, 7354, 1, -3008),
      (7357, 7359, 1, -3008), (7680, 7828, 2, 1), (7838, 7838, 1, -7615),
      (7840, 7934, 2, 1), (7944, 7951, 1, -8), (7960, 7965, 1, -8),
      (7976, 7983, 1, -8), (7992, 7999, 1, -8), (8008, 8013, 1, -8),
      (8025, 8031, 2, -8), (8040, 8047, 1, -8), (8072, 8079, 1, -8),
      (8088, 8095, 1, -8), (8104, 8111, 1, -8), (8120, 8121, 1, -8),
      (8122, 8123, 1, -74), (8124, 8124, 1, -9), (8136, 8139, 1, -86),
      (8140, 8140, 1, -9), (8152, 8153, 1, -8), (8154, 8155, 1, -100),
      (8168, 8169, 1, -8), (8170, 8171, 1, -112), (8172, 8172, 1, -7),
      (8184, 8185, 1, -128), (8186, 8187, 1, -126), (8188, 8188, 1, -9),
      (8486, 8486, 1, -7517), (8490, 8490, 1, -8383), (8491, 8491, 1, -8262),
      (8498, 8498, 1, 28), (8544, 8559, 1, 16), (8579, 8579, 1, 1),
      (9398, 9423, 1, 26), (11264, 11311, 1, 48), (11360, 11360, 1, 1),
      (11362, 11362, 1, -10743), (11363, 11363, 1, -3814), (11364, 11364, 1, -10727),
      (11367, 11371, 2, 1), (11373, 11373, 1, -10780), (11374, 11374, 1, -10749),
      (11375, 11375, 1, -10783), (11376, 11376, 1, -10782), (11378, 11378, 1, 1),
      (11381, 11381, 1, 1), (11390, 11391, 1, -10815), (11392, 11490, 2, 1),
      (11499, 11501, 2, 1), (11506, 11506, 1, 1), (42560, 42604, 2, 1),
      (42624, 42650, 2, 1), (42786, 42798, 2, 1), (42802, 42862, 2, 1),
      (42873, 42875, 2, 1), (42877, 42877, 1, -35332), (42878, 42886, 2, 1),
      (42891, 42891, 1, 1), (42893, 42893, 1, -42280), (42896, 42898, 2, 1),
      (42902, 42920, 2, 1), (42922, 42922, 1, -42308), (42923, 42923, 1, -42319),
      (42924, 42924, 1, -42315), (42925, 42925, 1, -42305), (42926, 42926, 1, -42308),
      (42928, 42928, 1, -42258), (42929, 42929, 1, -42282), (42930, 42930, 1, -42261),
      (42931, 42931, 1, 928), (42932, 42946, 2, 1), (42948, 42948, 1, -48),
      (42949, 42949, 1, -42307), (42950, 42950, 1, -35384), (42951, 42953, 2, 1),
      (42960, 42960, 1, 1), (42966, 42968, 2, 1), (42997, 42997, 1, 1),
      (65313, 65338, 1, 32), (66560, 66599, 1, 40), (66736, 66771, 1, 40),
      (66928, 66938, 1, 39), (66940, 66954, 1, 39), (66956, 66962, 1, 39),
      (66964, 66965, 1, 39), (68736, 68786, 1, 64), (71840, 71871, 1, 32),
      (93760, 93791, 1, 32), (125184, 125217, 1, 34)]"

fun table_delta :: "cp \<Rightarrow> (int \<times> int \<times> int \<times> int) list \<Rightarrow> int" where
  "table_delta c [] = 0"
| "table_delta c ((lo, hi, step, delta) # rows) =
     (if c < lo then 0
      else if c \<le> hi \<and> (c - lo) mod step = 0 then delta
      else table_delta c rows)"

definition to_lower_full :: "cp \<Rightarrow> pystr" where
  "to_lower_full c = (if c = 304 then [105, 775] else [c + table_delta c lower_table])"

text \<open>
  The capital sigma (U+03A3) is the one character whose lower case depends on its
  neighbours: it becomes the final sigma (U+03C2) when a cased character stands before
  it and none after it, characters that case ignores being skipped on both sides, and
  the small sigma (U+03C3) otherwise. \<open>case_ignorable_ranges\<close> and \<open>cased_ranges\<close> list the
  code points with these two properties as ranges \<open>(lo, hi)\<close> in increasing order.
\<close>

definition case_ignorable_ranges :: "(int \<times> int) list" where
  "case_ignorable_ranges =
     [(39, 39), (46, 46), (58, 58), (94, 94), (96, 96), (168, 168), (173, 173),
      (175, 175), (180, 180), (183, 184), (688, 879), (884, 885), (890, 890),
      (900, 901), (903, 903), (1155, 1161), (1369, 1369), (1375, 1375), (1425, 1469),
      (1471, 1471), (1473, 1474), (1476, 1477), (1479, 1479), (1524, 1524),
      (1536, 1541), (1552, 1562), (1564, 1564), (1600, 1600), (1611, 1631),
      (1648, 1648), (1750, 1757), (1759, 1768), (1770, 1773), (1807, 1807),
      (1809, 1809), (1840, 1866), (1958, 1968), (2027, 2037), (2042, 2042),
      (2045, 2045), (2070, 2093), (2137, 2139), (2184, 2184), (2192, 2193),
      (2200, 2207), (2249, 2306), (2362, 2362), (2364, 2364), (2369, 2376),
      (2381, 2381), (2385, 2391), (2402, 2403), (2417, 2417), (2433, 2433),
      (2492, 2492), (2497, 2500), (2509, 2509), (2530, 2531), (2558, 2558),
      (2561, 2562), (2620, 2620), (2625, 2626), (2631, 2632), (2635, 2637),
      (2641, 2641), (2672, 2673), (2677, 2677), (2689, 2690), (2748, 2748),
      (2753, 2757), (2759, 2760), (2765, 2765), (2786, 2787), (2810, 2815),
      (2817, 2817), (2876, 2876), (2879, 2879), (2881, 2884), (2893, 2893),
      (2901, 2902), (2914, 2915), (2946, 2946), (3008, 3008), (3021, 3021),
      (3072, 3072), (3076, 3076), (3132, 3132), (3134, 3136), (3142, 3144),
      (3146, 3149), (3157, 3158), (3170, 3171), (3201, 3201), (3260, 3260),
      (3263, 3263), (3270, 3270), (3276, 3277), (3298, 3299), (3328, 3329),
      (3387, 3388), (3393, 3396), (3405, 3405), (3426, 3427), (3457, 3457),
      (3530, 3530), (3538, 3540), (3542, 3542), (3633, 3633), (3636, 3642),
      (3654, 3662), (3761, 3761), (3764, 3772), (3782, 3782), (3784, 3789),
      (3864, 3865), (3893, 3893), (3895, 3895), (3897, 3897), (3953, 3966),
      (3968, 3972), (3974, 3975), (3981, 3991), (3993, 4028), (4038, 4038),
      (4141, 4144), (4146, 4151), (4153, 4154), (4157, 4158), (4184, 4185),
      (4190, 4192), (4209, 4212), (4226, 4226), (4229, 4230), (4237, 4237),
      (4253, 4253), (4348, 4348), (4957, 4959), (5906, 5908), (5938, 5939),
      (5970, 5971), (6002, 6003), (6068, 6069), (6071, 6077), (6086, 6086),
      (6089, 6099), (6103, 6103), (6109, 6109), (6155, 6159), (6211, 6211),
      (6277, 6278), (6313, 6313), (6432, 6434), (6439, 6440), (6450, 6450),
      (6457, 6459), (6679, 6680), (6683, 6683), (6742, 6742), (6744, 6750),
      (6752, 6752), (6754, 6754), (6757, 6764), (6771, 6780), (6783, 6783),
      (6823, 6823), (6832, 6862), (6912, 6915), (6964, 6964), (6966, 6970),
      (6972, 6972), (6978, 6978), (7019, 7027), (7040, 7041), (7074, 7077),
      (7080, 7081), (7083, 7085), (7142, 7142), (7144, 7145), (7149, 7149),
      (7151, 7153), (7212, 7219), (7222, 7223), (7288, 7293), (7376, 7378),
      (7380, 7392), (7394, 7400), (7405, 7405), (7412, 7412), (7416, 7417),
      (7468, 7530), (7544, 7544), (7579, 7679), (8125, 8125), (8127, 8129),
      (8141, 8143), (8157, 8159), (8173, 8175), (8189, 8190), (8203, 8207),
      (8216, 8217), (8228, 8228), (8231, 8231), (8234, 8238), (8288, 8292),
      (8294, 8303), (8305, 8305), (8319, 8319), (8336, 8348), (8400, 8432),
      (11388, 11389), (11503, 11505), (11631, 11631), (11647, 11647), (11744, 11775),
      (11823, 11823), (12293, 12293), (12330, 12333), (12337, 12341), (12347, 12347),
      (12441, 12446), (12540, 12542), (40981, 40981), (42232, 42237), (42508, 42508),
      (42607, 42610), (42612, 42621), (42623, 42623), (42652, 42655), (42736, 42737),
      (42752, 42785), (42864, 42864), (42888, 42890), (42994, 42996), (43000, 43001),
      (43010, 43010), (43014, 43014), (43019, 43019), (43045, 43046), (43052, 43052),
      (43204, 43205), (43232, 43249), (43263, 43263), (43302, 43309), (43335, 43345),
      (43392, 43394), (43443, 43443), (43446, 43449), (43452, 43453), (43471, 43471),
      (43493, 43494), (43561, 43566), (43569, 43570), (43573, 43574), (43587, 43587),
      (43596, 43596), (43632, 43632), (43644, 43644), (43696, 43696), (43698, 43700),
      (43703, 43704), (43710, 43711), (43713, 43713), (43741, 43741), (43756, 43757),
      (43763, 43764), (43766, 43766), (43867, 43871), (43881, 43883), (44005, 44005),
      (44008, 44008), (44013, 44013), (64286, 64286), (64434, 64450), (65024, 65039),
      (65043, 65043), (65056, 65071), (65106, 65106), (65109, 65109), (65279, 65279),
      (65287, 65287), (65294, 65294), (65306, 65306), (65342, 65342), (65344, 65344),
      (65392, 65392), (65438, 65439), (65507, 65507), (65529, 65531), (66045, 66045),
      (66272, 66272), (66422, 66426), (67456, 67461), (67463, 67504), (67506, 67514),
      (68097, 68099), (68101, 68102), (68108, 68111), (68152, 68154), (68159, 68159),
      (68325, 68326), (68900, 68903), (69291, 69292), (69446, 69456), (69506, 69509),
      (69633, 69633), (69688, 69702), (69744, 69744), (69747, 69748), (69759, 69761),
      (69811, 69814), (69817, 69818), (69821, 69821), (69826, 69826), (69837, 69837),
      (69888, 69890), (69927, 69931), (69933, 69940), (70003, 70003), (70016, 70017),
      (70070, 70078), (70089, 70092), (70095, 70095), (70191, 70193), (70196, 70196),
      (70198, 70199), (70206, 70206), (70367, 70367), (70371, 70378), (70400, 70401),
      (70459, 70460), (70464, 70464), (70502, 70508), (70512, 70516), (70712, 70719),
      (70722, 70724), (70726, 70726), (70750, 70750), (70835, 70840), (70842, 70842),
      (70847, 70848), (70850, 70851), (71090, 71093), (71100, 71101), (71103, 71104),
      (71132, 71133), (71219, 71226), (71229, 71229), (71231, 71232), (71339, 71339),
      (71341, 71341), (71344, 71349), (71351, 71351), (71453, 71455), (71458, 71461),
      (71463, 71467), (71727, 71735), (71737, 71738), (71995, 71996), (71998, 71998),
      (72003, 72003), (72148, 72151), (72154, 72155), (72160, 72160), (72193, 72202),
      (72243, 72248), (72251, 72254), (72263, 72263), (72273, 72278), (72281, 72283),
      (72330, 72342), (72344, 72345), (72752, 72758), (72760, 72765), (72767, 72767),
      (72850, 72871), (72874, 72880), (72882, 72883), (72885, 72886), (73009, 73014),
      (73018, 73018), (73020, 73021), (73023, 73029), (73031, 73031), (73104, 73105),
      (73109, 73109), (73111, 73111), (73459, 73460), (78896, 78904), (92912, 92916),
      (92976, 92982), (92992, 92995), (94031, 94031), (94095, 94111), (94176, 94177),
      (94179, 94180), (110576, 110579), (110581, 110587), (110589, 110590),
      (113821, 113822), (113824, 113827), (118528, 118573), (118576, 118598),
      (119143, 119145), (119155, 119170), (119173, 119179), (119210, 119213),
      (119362, 119364), (121344, 121398), (121403, 121452), (121461, 121461),
      (121476, 121476), (121499, 121503), (121505, 121519), (122880, 122886),
      (122888, 122904), (122907, 122913), (122915, 122916), (122918, 122922),
      (123184, 123197), (123566, 123566), (123628, 123631), (125136, 125142),
      (125252, 125259), (127995, 127999), (917505, 917505), (917536, 917631),
      (917760, 917999)]"

definition cased_ranges :: "(int \<times> int) list" where
  "cased_ranges =
     [(65, 90), (97, 122), (170, 170), (181, 181), (186, 186), (192, 214), (216, 246),
      (248, 442), (444, 447), (452, 659), (661, 696), (704, 705), (736, 740),
      (837, 837), (880, 883), (886, 887), (890, 893), (895, 895), (902, 902),
      (904, 906), (908, 908), (910, 929), (931, 1013), (1015, 1153), (1162, 1327),
      (1329, 1366), (1376, 1416), (4256, 4293), (4295, 4295), (4301, 4301),
      (4304, 4346), (4349, 4351), (5024, 5109), (5112, 5117), (7296, 7304),
      (7312, 7354), (7357, 7359), (7424, 7615), (7680, 7957), (7960, 7965),
      (7968, 8005), (8008, 8013), (8016, 8023), (8025, 8025), (8027, 8027),
      (8029, 8029), (8031, 8061), (8064, 8116), (8118, 8124), (8126, 8126),
      (8130, 8132), (8134, 8140), (8144, 8147), (8150, 8155), (8160, 8172),
      (8178, 8180), (8182, 8188), (8305, 8305), (8319, 8319), (8336, 8348),
      (8450, 8450), (8455, 8455), (8458, 8467), (8469, 8469), (8473, 8477),
      (8484, 8484), (8486, 8486), (8488, 8488), (8490, 8493), (8495, 8500),
      (8505, 8505), (8508, 8511), (8517, 8521), (8526, 8526), (8544, 8575),
      (8579, 8580), (9398, 9449), (11264, 11492), (11499, 11502), (11506, 11507),
      (11520, 11557), (11559, 11559), (11565, 11565), (42560, 42605), (42624, 42653),
      (42786, 42887), (42891, 42894), (42896, 42954), (42960, 42961), (42963, 42963),
      (42965, 42969), (42997, 42998), (43000, 43002), (43824, 43866), (43868, 43880),
      (43888, 43967), (64256, 64262), (64275, 64279), (65313, 65338), (65345, 65370),
      (66560, 66639), (66736, 66771), (66776, 66811), (66928, 66938), (66940, 66954),
      (66956, 66962), (66964, 66965), (66967, 66977), (66979, 66993), (66995, 67001),
      (67003, 67004), (67456, 67456), (67459, 67461), (67463, 67504), (67506, 67514),
      (68736, 68786), (68800, 68850), (71840, 71903), (93760, 93823), (119808, 119892),
      (119894, 119964), (119966, 119967), (119970, 119970), (119973, 119974),
      (119977, 119980), (119982, 119993), (119995, 119995), (119997, 120003),
      (120005, 120069), (120071, 120074), (120077, 120084), (120086, 120092),
      (120094, 120121), (120123, 120126), (120128, 120132), (120134, 120134),
      (120138, 120144), (120146, 120485), (120488, 120512), (120514, 120538),
      (120540, 120570), (120572, 120596), (120598, 120628), (120630, 120654),
      (120656, 120686), (120688, 120712), (120714, 120744), (120746, 120770),
      (120772, 120779), (122624, 122633), (122635, 122654), (125184, 125251),
      (127280, 127305), (127312, 127337), (127344, 127369)]"

fun in_ranges :: "cp \<Rightarrow> (int \<times> int) list \<Rightarrow> bool" where
  "in_ranges c [] = False"
| "in_ranges c ((lo, hi) # rows) =
     (if c < lo then False else if c \<le> hi then True else in_ranges c rows)"

definition is_case_ignorable :: "cp \<Rightarrow> bool" where
  "is_case_ignorable c = in_ranges c case_ignorable_ranges"

definition is_cased :: "cp \<Rightarrow> bool" where
  "is_cased c = in_ranges c cased_ranges"

text \<open>\<open>before\<close> holds the characters before the sigma, the nearest first.\<close>

definition handle_capital_sigma :: "pystr \<Rightarrow> pystr \<Rightarrow> cp" where
  "handle_capital_sigma before rest =
     (let b = dropWhile is_case_ignorable before;
          a = dropWhile is_case_ignorable rest;
          final_sigma = (b \<noteq> [] \<and> is_cased (hd b) \<and> (a = [] \<or> \<not> is_cased (hd a)))
      in if final_sigma then 962 else 963)"

fun lower_from :: "pystr \<Rightarrow> pystr \<Rightarrow> pystr" where
  "lower_from before [] = []"
| "lower_from before (c # rest) =
     (if c = 931 then [handle_capital_sigma before rest] else to_lower_full c)
       @ lower_from (c # before) rest"

definition lower :: "pystr \<Rightarrow> pystr" where
  "lower s = lower_from [] s"

section \<open>The regular expression of the headline formatter\<close>

text \<open>
  \<^verbatim>\<open>re.match\<close> is a backtracking matcher. The pattern of \<^verbatim>\<open>format_news_headline\<close> is a
  sequence of single-character classes under a repetition, group parentheses and the
  two anchors, so the matcher below handles exactly those: a repetition tries its
  counts from the largest down when greedy and from the smallest up when lazy, and the
  first count under which the rest of the pattern matches wins.
\<close>

datatype cclass = Digit | Space | NonSpace | AnyButNewline | Lit cp

fun in_class :: "cclass \<Rightarrow> cp \<Rightarrow> bool" where
  "in_class Digit c = is_digit c"
| "in_class Space c = is_space c"
| "in_class NonSpace c = (\<not> is_space c)"
| "in_class AnyButNewline c = (c \<noteq> 10)"
| "in_class (Lit l) c = (c = l)"

datatype item =
    Rep cclass nat "nat option" bool
  | Bos
  | Eos
  | Open nat
  | Close nat

fun first_success :: "('a \<Rightarrow> 'b option) \<Rightarrow> 'a list \<Rightarrow> 'b option" where
  "first_success f [] = None"
| "first_success f (k # ks) = (case f k of Some r \<Rightarrow> Some r | None \<Rightarrow> first_success f ks)"

definition counts :: "cclass \<Rightarrow> nat \<Rightarrow> nat option \<Rightarrow> bool \<Rightarrow> pystr \<Rightarrow> nat list" where
  "counts c lo hi greedy s =
     (let avail = length (takeWhile (in_class c) s);
          top = (case hi of None \<Rightarrow> avail | Some h \<Rightarrow> min h avail);
          ks = [lo ..< Suc top]
      in if greedy then rev ks else ks)"

text \<open>
  \<open>run items pos s\<close> matches \<open>items\<close> against the input \<open>s\<close> that starts at position
  \<open>pos\<close> of the whole string, and returns the text each item consumed.
\<close>

fun run :: "item list \<Rightarrow> nat \<Rightarrow> pystr \<Rightarrow> pystr list option" where
  "run [] pos s = Some []"
| "run (Bos # r) pos s = (if pos = 0 then map_option (Cons []) (run r pos s) else None)"
| "run (Eos # r) pos s =
     (if s = [] \<or> s = [10] then map_option (Cons []) (run r pos s) else None)"
| "run (Open g # r) pos s = map_option (Cons []) (run r pos s)"
| "run (Close g # r) pos s = map_option (Cons []) (run r pos s)"
| "run (Rep c lo hi greedy # r) pos s =
     first_success (\<lambda>k. map_option (Cons (take k s)) (run r (pos + k) (drop k s)))
       (counts c lo hi greedy s)"

text \<open>The text of group \<open>g\<close>: what the items between its parentheses consumed.\<close>

fun group_chunks :: "nat \<Rightarrow> bool \<Rightarrow> item list \<Rightarrow> pystr list \<Rightarrow> pystr" where
  "group_chunks g inside (Open h # r) (c # cs) = group_chunks g (inside \<or> h = g) r cs"
| "group_chunks g inside (Close h # r) (c # cs) = group_chunks g (inside \<and> h \<noteq> g) r cs"
| "group_chunks g inside (i # r) (c # cs) =
     (if inside then c @ group_chunks g inside r cs else group_chunks g inside r cs)"
| "group_chunks g inside _ _ = []"

definition re_match :: "item list \<Rightarrow> pystr \<Rightarrow> (nat \<Rightarrow> pystr) option" where
  "re_match p s = map_option (\<lambda>cs g. group_chunks g False p cs) (run p 0 s)"

text \<open>
  \<^verbatim>\<open>^(.*?)(\d{2}:\d{2}),\s*([\d]{1,2}\s+\S+\s+\d{4})(.*)$\<close>
\<close>

definition pattern :: "item list" where
  "pattern =
     [Bos,
      Open 1, Rep AnyButNewline 0 None False, Close 1,
      Open 2, Rep Digit 2 (Some 2) True, Rep (Lit 58) 1 (Some 1) True,
              Rep Digit 2 (Some 2) True, Close 2,
      Rep (Lit 44) 1 (Some 1) True,
      Rep Space 0 None True,
      Open 3, Rep Digit 1 (Some 2) True, Rep Space 1 None True, Rep NonSpace 1 None True,
              Rep Space 1 None True, Rep Digit 4 (Some 4) True, Close 3,
      Open 4, Rep AnyButNewline 0 None True, Close 4,
      Eos]"

section \<open>format\_news\_headline\<close>

definition format_news_headline :: "pystr \<Rightarrow> pystr" where
  "format_news_headline headline =
     (case re_match pattern headline of
        Some m \<Rightarrow>
          (let main_text = strip (m 1);
               time_str = m 2;
               date_str = m 3
           in main_text @ [44, 32] @ time_str @ [44, 32] @ date_str)
      | None \<Rightarrow> headline)"


section \<open>Exceptions, dates and the outside world\<close>

text \<open>
  Every exception of the program is an instance of \<^verbatim>\<open>Exception\<close>; the handlers only use
  \<^verbatim>\<open>str(e)\<close>, so an exception is its class, as far as the program tells classes apart,
  and its message.
\<close>

datatype exn = OverflowError pystr | IndexError pystr | OtherException pystr

fun exn_str :: "exn \<Rightarrow> pystr" where
  "exn_str (OverflowError m) = m"
| "exn_str (IndexError m) = m"
| "exn_str (OtherException m) = m"

definition ascii :: "string \<Rightarrow> pystr" where
  "ascii s = map of_char s"

text \<open>
  A \<^verbatim>\<open>datetime.date\<close> is represented by its proleptic Gregorian ordinal
  (\<^verbatim>\<open>date.toordinal()\<close>): 1 is 0001-01-01 and \<open>MAXORDINAL\<close> is 9999-12-31, the last date
  the type has. Comparison of dates is comparison of ordinals, and adding
  \<^verbatim>\<open>timedelta(days=1)\<close> adds one to the ordinal and raises \<^verbatim>\<open>OverflowError\<close> when the
  result is not a date.
\<close>

type_synonym pydate = int

definition MAXORDINAL :: int where
  "MAXORDINAL = 3652059"

definition valid_date :: "pydate \<Rightarrow> bool" where
  "valid_date d = (1 \<le> d \<and> d \<le> MAXORDINAL)"

definition add_one_day :: "pydate \<Rightarrow> exn + pydate" where
  "add_one_day d =
     (let ordinal = d + 1
      in if 0 < ordinal \<and> ordinal \<le> MAXORDINAL then Inr ordinal
         else Inl (OverflowError (ascii ''date value out of range'')))"

text \<open>Year, month and day of an ordinal, as \<^verbatim>\<open>datetime\<close> computes them.\<close>

definition days_before_month :: "int \<Rightarrow> int" where
  "days_before_month m = [0, 0, 31, 59, 90, 120, 151, 181, 212, 243, 273, 304, 334] ! nat m"

definition days_in_month :: "int \<Rightarrow> int" where
  "days_in_month m = [0, 31, 28, 31, 30, 31, 30, 31, 31, 30, 31, 30, 31] ! nat m"

definition ord2ymd :: "int \<Rightarrow> int \<times> int \<times> int" where
  "ord2ymd n0 =
     (let n = n0 - 1;
          n400 = n div 146097; n = n mod 146097;
          n100 = n div 36524; n = n mod 36524;
          n4 = n div 1461; n = n mod 1461;
          n1 = n div 365; n = n mod 365;
          year = n400 * 400 + 1 + n100 * 100 + n4 * 4 + n1
      in if n1 = 4 \<or> n100 = 4 then (year - 1, 12, 31)
         else
           (let leapyear = (n1 = 3 \<and> (n4 \<noteq> 24 \<or> n100 = 3));
                month = (n + 50) div 32;
                preceding = days_before_month month + (if month > 2 \<and> leapyear then 1 else 0)
            in if preceding > n
               then (let month' = month - 1;
                         preceding' = preceding
                           - (days_in_month month' + (if month' = 2 \<and> leapyear then 1 else 0))
                     in (year, month', n - preceding' + 1))
               else (year, month, n - preceding + 1)))"

text \<open>\<^verbatim>\<open>str(n)\<close> of an integer, and the format \<^verbatim>\<open>{n:02}\<close>.\<close>

function str_nonneg :: "int \<Rightarrow> pystr" where
  "str_nonneg n = (if n < 10 then [48 + n] else str_nonneg (n div 10) @ [48 + n mod 10])"
  by pat_completeness auto
termination
  by (relation "measure nat") auto

declare str_nonneg.simps [simp del]

definition str_int :: "int \<Rightarrow> pystr" where
  "str_int n = (if n < 0 then 45 # str_nonneg (- n) else str_nonneg n)"

definition pad02 :: "int \<Rightarrow> pystr" where
  "pad02 n = (let s = str_int n in replicate (2 - length s) 48 @ s)"

definition BASE_URL :: pystr where
  "BASE_URL = ascii ''https://lenta.ru''"

text \<open>
  What the program reads of a fetched page. \<open>anchors\<close> is \<^verbatim>\<open>soup.find_all('a', href=True)\<close>
  in document order, each link with its \<^verbatim>\<open>get_text(strip=True)\<close> and its \<^verbatim>\<open>href\<close>;
  \<open>body_paragraph\<close> is the text of the first \<^verbatim>\<open>p\<close> inside the first
  \<^verbatim>\<open>div.topic-body__content\<close>, when both exist; \<open>first_paragraph\<close> is the text of the
  first \<^verbatim>\<open>p\<close> of the document, when there is one.
\<close>

record page =
  anchors :: "(pystr \<times> pystr) list"
  body_paragraph :: "pystr option"
  first_paragraph :: "pystr option"

text \<open>
  The network and the classifier are outside the program. Their answers may depend on
  the argument and on how many calls were made before, so each is a function of the
  call number and the arguments: \<open>fetchPage env n url\<close> is what \<^verbatim>\<open>requests.get(url)\<close>
  followed by \<^verbatim>\<open>response.text\<close> and the parse gives when \<open>n\<close> requests were made before,
  and \<open>classifier env n text labels\<close> is the \<^verbatim>\<open>"labels"\<close> entry of the result of the
  zero-shot pipeline, or the exception it raises.
\<close>

record env =
  fetchPage :: "nat \<Rightarrow> pystr \<Rightarrow> exn + page"
  classifier :: "nat \<Rightarrow> pystr \<Rightarrow> pystr list \<Rightarrow> exn + pystr list"

text \<open>A news item is a dictionary; the keys it may hold are the fields, absent keys are \<open>None\<close>.\<close>

record news_item =
  headline :: pystr
  url :: pystr
  date :: "pydate option"
  combined_text :: "pystr option"
  predicted_emotion :: "pystr option"

text \<open>
  The state the program changes: the requests made so far, the number of classifier
  calls, the messages of \<^verbatim>\<open>logging.error\<close>, and the global \<^verbatim>\<open>user_context\<close>.
\<close>

record state =
  requests :: "pystr list"
  classifier_calls :: nat
  error_log :: "pystr list"
  user_context :: "int \<rightharpoonup> news_item list"

definition do_fetch :: "env \<Rightarrow> pystr \<Rightarrow> state \<Rightarrow> (exn + page) \<times> state" where
  "do_fetch env u st =
     (fetchPage env (length (requests st)) u, st\<lparr>requests := requests st @ [u]\<rparr>)"

definition logging_error :: "pystr \<Rightarrow> state \<Rightarrow> state" where
  "logging_error msg st = st\<lparr>error_log := error_log st @ [msg]\<rparr>"

section \<open>get\_first\_sentence\<close>

text \<open>
  \<^verbatim>\<open>re.split(r'(?<=[.!?])\s+', text)[0]\<close>: the text before the first run of whitespace that
  follows a full stop, an exclamation mark or a question mark; the whole text when
  there is no such place.
\<close>

fun first_split :: "pystr \<Rightarrow> pystr" where
  "first_split (c # d # r) =
     (if c \<in> {46, 33, 63} \<and> is_space d then [c] else c # first_split (d # r))"
| "first_split s = s"

definition article_error_prefix :: pystr where
  "article_error_prefix = [1054, 1096, 1080, 1073, 1082, 1072, 32, 1087, 1088, 1080, 32,
     1087, 1086, 1083, 1091, 1095, 1077, 1085, 1080, 1080, 32, 1089, 1090, 1072, 1090,
     1100, 1080, 32]"

definition get_first_sentence :: "env \<Rightarrow> pystr \<Rightarrow> state \<Rightarrow> pystr \<times> state" where
  "get_first_sentence env u st =
     (case do_fetch env u st of
        (Inl e, st1) \<Rightarrow>
          ([], logging_error (article_error_prefix @ u @ [58, 32] @ exn_str e) st1)
      | (Inr soup, st1) \<Rightarrow>
          (let text = [];
               text = (case body_paragraph soup of Some p \<Rightarrow> p | None \<Rightarrow> text);
               text = (if text = []
                       then (case first_paragraph soup of Some p \<Rightarrow> p | None \<Rightarrow> text)
                       else text)
           in (first_split text, st1)))"


section \<open>get\_news\_for\_day\<close>

text \<open>
  The set literal \<^verbatim>\<open>blacklisted_headlines\<close>, in the order of the source: seventeen
  Russian phrases, the fourteenth being \<^verbatim>\<open>"internet i SMI"\<close> with its last word in
  capital letters (1057, 1052, 1048).
\<close>

definition blacklisted_headlines :: "pystr list" where
  "blacklisted_headlines =
     [[1091, 1079, 1085, 1072, 1090, 1100, 32, 1073, 1086, 1083, 1100, 1096, 1077],
      [1087, 1086, 1076, 1088, 1086, 1073, 1085, 1077, 1077],
      [1087, 1088, 1077, 1089, 1089, 45, 1088, 1077, 1083, 1080, 1079, 1099],
      [1090, 1077, 1093, 1087, 1086, 1076, 1076, 1077, 1088, 1078, 1082, 1072],
      [1089, 1087, 1077, 1094, 1087, 1088, 1086, 1077, 1082, 1090, 1099],
      [1091, 1089, 1083, 1086, 1074, 1080, 1103, 32, 1080, 1089, 1087, 1086, 1083,
       1100, 1079, 1086, 1074, 1072, 1085, 1080, 1103],
      [1087, 1086, 1083, 1080, 1090, 1080, 1082, 1072, 32, 1082, 1086, 1085, 1092,
       1080, 1076, 1077, 1085, 1094, 1080, 1072, 1083, 1100, 1085, 1086, 1089, 1090,
       1080],
      [1087, 1088, 1072, 1074, 1080, 1083, 1072, 32, 1087, 1088, 1080, 1084, 1077,
       1085, 1077, 1085, 1080, 1103, 32, 1088, 1077, 1082, 1086, 1084, 1077, 1085,
       1076, 1072, 1090, 1077, 1083, 1100, 1085, 1099, 1093, 32, 1090, 1077, 1093,
       1085, 1086, 1083, 1086, 1075, 1080, 1081],
      [1091, 1089, 1083, 1086, 1074, 1080, 1103, 1084, 1080, 32, 1072, 1082, 1094,
       1080, 1080, 32, 108, 101, 110, 116, 97, 46, 114, 117],
      [1087, 1086, 1083, 1080, 1090, 1080, 1082, 1086, 1081, 32, 1082, 1086, 1085,
       1092, 1080, 1076, 1077, 1085, 1094, 1080, 1072, 1083, 1100, 1085, 1086, 1089,
       1090, 1080, 32, 114, 97, 109, 98, 108, 101, 114, 32, 105, 100],
      [1073, 1099, 1074, 1096, 1080, 1081, 32, 1089, 1089, 1089, 1088],
      [1089, 1080, 1083, 1086, 1074, 1099, 1077, 32, 1089, 1090, 1088, 1091, 1082,
       1090, 1091, 1088, 1099],
      [1085, 1072, 1091, 1082, 1072, 32, 1080, 32, 1090, 1077, 1093, 1085, 1080, 1082,
       1072],
      [1080, 1085, 1090, 1077, 1088, 1085, 1077, 1090, 32, 1080, 32, 1057, 1052, 1048],
      [1087, 1091, 1090, 1077, 1096, 1077, 1089, 1090, 1074, 1080, 1103],
      [1089, 1088, 1077, 1076, 1072, 32, 1086, 1073, 1080, 1090, 1072, 1085, 1080,
       1103],
      [1079, 1072, 1073, 1086, 1090, 1072, 32, 1086, 32, 1089, 1077, 1073, 1077]]"

definition blacklisted_url_parts :: "pystr list" where
  "blacklisted_url_parts =
     [ascii ''mailto:'', ascii ''/parts/'', ascii ''/specprojects/'', ascii ''/info/'',
      ascii ''help.rambler.ru'', ascii ''/rubrics/'']"

definition startswith :: "pystr \<Rightarrow> pystr \<Rightarrow> bool" where
  "startswith s p = (take (length p) s = p)"

text \<open>The substring test \<^verbatim>\<open>bad in s\<close>.\<close>

fun contains :: "pystr \<Rightarrow> pystr \<Rightarrow> bool" where
  "contains [] bad = (bad = [])"
| "contains (c # s) bad = (startswith (c # s) bad \<or> contains s bad)"

definition headline_rejected :: "pystr \<Rightarrow> bool" where
  "headline_rejected h =
     (h = [] \<or> length h \<le> 10 \<or> lower h \<in> set blacklisted_headlines)"

definition resolve_href :: "pystr \<Rightarrow> pystr" where
  "resolve_href href =
     (if startswith href (ascii ''/'') then BASE_URL @ href
      else if startswith href (ascii ''http'') then href
      else BASE_URL @ ascii ''/'' @ href)"

definition url_rejected :: "pystr \<Rightarrow> bool" where
  "url_rejected full_url = list_ex (\<lambda>bad. contains full_url bad) blacklisted_url_parts"

text \<open>The loop over the links; \<open>news_items\<close> is the list the loop appends to.\<close>

fun crawl_loop :: "(pystr \<times> pystr) list \<Rightarrow> news_item list \<Rightarrow> news_item list" where
  "crawl_loop [] news_items = news_items"
| "crawl_loop ((raw_headline, href) # rest) news_items =
     (let headline = format_news_headline raw_headline
      in if headline_rejected headline then crawl_loop rest news_items
         else
           (let full_url = resolve_href href
            in if url_rejected full_url then crawl_loop rest news_items
               else crawl_loop rest
                      (news_items @ [\<lparr>headline = headline, url = full_url, date = None,
                                      combined_text = None, predicted_emotion = None\<rparr>])))"

text \<open>
  \<^verbatim>\<open>list({item['url']: item for item in news_items}.values())\<close>: a dictionary keeps its
  keys in the order of their first insertion, and a later value for a key replaces the
  earlier one in place, which is what \<open>AList.update\<close> does on an association list.
\<close>

definition url_dict :: "news_item list \<Rightarrow> (pystr \<times> news_item) list" where
  "url_dict news_items = foldl (\<lambda>d item. AList.update (url item) item d) [] news_items"

definition unique_news :: "news_item list \<Rightarrow> news_item list" where
  "unique_news news_items = map snd (url_dict news_items)"

definition day_url :: "pydate \<Rightarrow> pystr" where
  "day_url date_obj =
     (case ord2ymd date_obj of
        (year, month, day) \<Rightarrow>
          BASE_URL @ ascii ''/news/'' @ str_int year @ ascii ''/'' @ pad02 month
            @ ascii ''/'' @ pad02 day @ ascii ''/'')"

definition day_error_prefix :: pystr where
  "day_error_prefix = [1054, 1096, 1080, 1073, 1082, 1072, 32, 1087, 1088, 1080, 32,
     1087, 1086, 1083, 1091, 1095, 1077, 1085, 1080, 1080, 32]"

definition get_news_for_day :: "env \<Rightarrow> pydate \<Rightarrow> state \<Rightarrow> news_item list \<times> state" where
  "get_news_for_day env date_obj st =
     (let u = day_url date_obj
      in case do_fetch env u st of
           (Inl e, st1) \<Rightarrow>
             ([], logging_error (day_error_prefix @ u @ [58, 32] @ exn_str e) st1)
         | (Inr soup, st1) \<Rightarrow> (unique_news (crawl_loop (anchors soup) []), st1))"

section \<open>get\_news\_for\_date\_range\<close>

text \<open>
  The dictionary \<^verbatim>\<open>news_by_day\<close> is an association list in insertion order. An exception
  leaves the function with the state reached so far.
\<close>

function range_loop ::
  "env \<Rightarrow> pydate \<Rightarrow> pydate \<Rightarrow> (pydate \<times> news_item list) list \<Rightarrow> state
     \<Rightarrow> (exn + (pydate \<times> news_item list) list) \<times> state" where
  "range_loop env current_date end_date news_by_day st =
     (if current_date \<le> end_date then
        (case get_news_for_day env current_date st of
           (items, st1) \<Rightarrow>
             (case add_one_day current_date of
                Inl e \<Rightarrow> (Inl e, st1)
              | Inr next_date \<Rightarrow>
                  range_loop env next_date end_date
                    (AList.update current_date items news_by_day) st1))
      else (Inr news_by_day, st))"
  by pat_completeness auto
termination
  by (relation "measure (\<lambda>(env, current_date, end_date, news_by_day, st).
        nat (end_date + 1 - current_date))")
     (auto simp: add_one_day_def Let_def split: if_splits)

declare range_loop.simps [simp del]

definition get_news_for_date_range ::
  "env \<Rightarrow> pydate \<Rightarrow> pydate \<Rightarrow> state \<Rightarrow> (exn + (pydate \<times> news_item list) list) \<times> state" where
  "get_news_for_date_range env start_date end_date st =
     range_loop env start_date end_date [] st"

section \<open>Floating point\<close>

text \<open>
  A Python \<^verbatim>\<open>float\<close> is an IEEE 754 binary64 number: an integer significand of at most 53
  bits times a power of two. A float is therefore a pair \<open>(m, e)\<close> that stands for
  \<open>m * 2 ^ e\<close>. Every arithmetic operation returns the exact result rounded to the
  nearest float, ties to the even significand; \<^verbatim>\<open>int(x)\<close> truncates towards zero. The
  values of the program lie far inside the range of normal numbers, so neither overflow
  nor subnormal numbers are modelled, and both divisors of the program are checked or
  constant, so division by zero is not modelled either.
\<close>

type_synonym pyfloat = "int \<times> int"

definition two_pow :: "int \<Rightarrow> int" where
  "two_pow k = 2 ^ nat k"

function bit_length :: "int \<Rightarrow> int" where
  "bit_length n = (if n \<le> 0 then 0 else 1 + bit_length (n div 2))"
  by pat_completeness auto
termination
  by (relation "measure nat") auto

declare bit_length.simps [simp del]

text \<open>
  The float nearest to \<open>n / d\<close> for \<open>n \<ge> 0\<close> and \<open>d > 0\<close>: \<open>e\<close> is the exponent with
  \<open>2 ^ e \<le> n / d < 2 ^ (e + 1)\<close>, so that \<open>n / d\<close> divided by \<open>2 ^ (e - 52)\<close> has 53 bits
  before the binary point; \<open>q\<close> and \<open>r\<close> are its integer part and what remains.
\<close>

definition round_ratio :: "int \<Rightarrow> int \<Rightarrow> pyfloat" where
  "round_ratio n d =
     (if n = 0 then (0, 0)
      else
        (let k = bit_length n - bit_length d;
             e = (if (if 0 \<le> k then d * two_pow k \<le> n else d \<le> n * two_pow (- k))
                  then k else k - 1);
             sh = e - 52;
             num = (if 0 \<le> sh then n else n * two_pow (- sh));
             den = (if 0 \<le> sh then d * two_pow sh else d);
             q = num div den;
             r = num mod den;
             m = (if 2 * r < den then q else if den < 2 * r then q + 1
                  else if even q then q else q + 1)
         in (m, sh)))"

definition float_of_ratio :: "int \<Rightarrow> int \<Rightarrow> pyfloat" where
  "float_of_ratio a b =
     (case round_ratio \<bar>a\<bar> \<bar>b\<bar> of (m, e) \<Rightarrow> (sgn a * sgn b * m, e))"

text \<open>\<^verbatim>\<open>float(n)\<close>, the conversion of an integer operand.\<close>

definition float_of_int :: "int \<Rightarrow> pyfloat" where
  "float_of_int n = float_of_ratio n 1"

text \<open>\<^verbatim>\<open>a / b\<close> on integers.\<close>

definition truediv :: "int \<Rightarrow> int \<Rightarrow> pyfloat" where
  "truediv a b = float_of_ratio a b"

text \<open>\<^verbatim>\<open>x * y\<close> on floats.\<close>

definition fmul :: "pyfloat \<Rightarrow> pyfloat \<Rightarrow> pyfloat" where
  "fmul x y =
     (case (x, y) of
        ((m1, e1), (m2, e2)) \<Rightarrow>
          (let m = m1 * m2; e = e1 + e2
           in if 0 \<le> e then float_of_ratio (m * two_pow e) 1
              else float_of_ratio m (two_pow (- e))))"

definition py_int :: "pyfloat \<Rightarrow> int" where
  "py_int x =
     (case x of (m, e) \<Rightarrow>
        if 0 \<le> e then m * two_pow e else sgn m * (\<bar>m\<bar> div two_pow (- e)))"

section \<open>Progress\<close>

record progress =
  progress_count :: int
  progress_total :: int
  progress_done :: bool

text \<open>The percentage \<^verbatim>\<open>update_progress\<close> computes from the shared dictionary.\<close>

definition update_progress_percent :: "progress \<Rightarrow> int" where
  "update_progress_percent pr =
     (if progress_total pr > 0
      then py_int (fmul (truediv (progress_count pr) (progress_total pr)) (float_of_int 100))
      else 100)"

text \<open>The filled segment is U+1F535, the empty one U+26AA.\<close>

definition filled_blocks :: "int \<Rightarrow> int \<Rightarrow> int" where
  "filled_blocks percent total_blocks =
     py_int (fmul (truediv percent 100) (float_of_int total_blocks))"

definition format_progress :: "int \<Rightarrow> pystr" where
  "format_progress percent =
     (let total_blocks = 10;
          filled = filled_blocks percent total_blocks;
          empty = total_blocks - filled
      in replicate (nat filled) 128309 @ replicate (nat empty) 9898
           @ [32] @ str_int percent @ [37])"

section \<open>The classification loop of process\_date\_input\<close>

definition CANDIDATE_LABELS :: "pystr list" where
  "CANDIDATE_LABELS =
     [[1072, 1075, 1088, 1077, 1089, 1089, 1080, 1103],
      [1090, 1088, 1077, 1074, 1086, 1078, 1085, 1086, 1089, 1090, 1100],
      [1089, 1072, 1088, 1082, 1072, 1079, 1084],
      [1087, 1086, 1079, 1080, 1090, 1080, 1074],
      [1085, 1077, 1081, 1090, 1088, 1072, 1083, 1100, 1085, 1086, 1077, 32, 1089,
       1086, 1089, 1090, 1086, 1103, 1085, 1080, 1077]]"

text \<open>The label of an item whose classification failed.\<close>

definition UNDETERMINED :: pystr where
  "UNDETERMINED = [1085, 1077, 32, 1086, 1087, 1088, 1077, 1076, 1077, 1083, 1077, 1085, 1086]"

definition classify_error_prefix :: pystr where
  "classify_error_prefix = [1054, 1096, 1080, 1073, 1082, 1072, 32, 1082, 1083, 1072, 1089,
     1089, 1080, 1092, 1080, 1082, 1072, 1094, 1080, 1080, 32, 1090, 1077, 1082, 1089, 1090,
     1072, 58, 32]"

text \<open>
  \<^verbatim>\<open>classifier(combined_text, candidate_labels=CANDIDATE_LABELS)\<close> followed by
  \<^verbatim>\<open>result["labels"][0]\<close>, both inside the \<^verbatim>\<open>try\<close>: an empty list of labels raises
  \<^verbatim>\<open>IndexError\<close> there.
\<close>

definition top_label :: "env \<Rightarrow> pystr \<Rightarrow> state \<Rightarrow> (exn + pystr) \<times> state" where
  "top_label env text st =
     (let result = classifier env (classifier_calls st) text CANDIDATE_LABELS;
          st1 = st\<lparr>classifier_calls := Suc (classifier_calls st)\<rparr>
      in case result of
           Inl e \<Rightarrow> (Inl e, st1)
         | Inr [] \<Rightarrow> (Inl (IndexError (ascii ''list index out of range'')), st1)
         | Inr (l # ls) \<Rightarrow> (Inr l, st1))"

text \<open>One pass of the body of the loop \<^verbatim>\<open>for news in aggregated_news\<close>.\<close>

definition tag_item ::
  "env \<Rightarrow> news_item \<Rightarrow> state \<Rightarrow> progress \<Rightarrow> news_item \<times> state \<times> progress" where
  "tag_item env news st pr =
     (case get_first_sentence env (url news) st of
        (first_sentence, st1) \<Rightarrow>
          (let text = headline news;
               text = (if first_sentence \<noteq> [] then text @ [46, 32] @ first_sentence else text);
               news1 = news\<lparr>combined_text := Some text\<rparr>
           in case top_label env text st1 of
                (Inr l, st2) \<Rightarrow>
                  (news1\<lparr>predicted_emotion := Some l\<rparr>, st2,
                   pr\<lparr>progress_count := progress_count pr + 1\<rparr>)
              | (Inl e, st2) \<Rightarrow>
                  (news1\<lparr>predicted_emotion := Some UNDETERMINED\<rparr>,
                   logging_error (classify_error_prefix @ exn_str e) st2,
                   pr\<lparr>progress_count := progress_count pr + 1\<rparr>)))"

fun tag_loop ::
  "env \<Rightarrow> news_item list \<Rightarrow> state \<Rightarrow> progress \<Rightarrow> news_item list \<times> state \<times> progress" where
  "tag_loop env [] st pr = ([], st, pr)"
| "tag_loop env (news # rest) st pr =
     (case tag_item env news st pr of
        (news', st1, pr1) \<Rightarrow>
          (case tag_loop env rest st1 pr1 of
             (rest', st2, pr2) \<Rightarrow> (news' # rest', st2, pr2)))"

text \<open>
  \<^verbatim>\<open>process_date_input\<close> from the test \<^verbatim>\<open>if not aggregated_news\<close> to the assignment to
  \<^verbatim>\<open>user_context\<close>, for the \<open>aggregated_news\<close> its first part collected. The reporter
  thread only reads the \<open>progress\<close> dictionary, so the dictionary is what this thread
  makes of it. The result is \<open>None\<close> when the function returns at the test.
\<close>

definition initial_progress :: "news_item list \<Rightarrow> progress" where
  "initial_progress aggregated_news =
     \<lparr>progress_count = 0, progress_total = int (length aggregated_news),
      progress_done = False\<rparr>"

definition tag_and_store ::
  "env \<Rightarrow> int \<Rightarrow> news_item list \<Rightarrow> state \<Rightarrow> (news_item list \<times> progress) option \<times> state" where
  "tag_and_store env chat_id aggregated_news st =
     (if aggregated_news = [] then (None, st)
      else
        (let pr = initial_progress aggregated_news
         in case tag_loop env aggregated_news st pr of
              (tagged, st1, pr1) \<Rightarrow>
                (Some (tagged, pr1\<lparr>progress_done := True\<rparr>),
                 st1\<lparr>user_context := (user_context st1)(chat_id \<mapsto> tagged)\<rparr>)))"

section \<open>callback\_emotion\<close>

text \<open>
  The handler runs for callback data that starts with \<^verbatim>\<open>emotion_\<close>; the result is the
  list \<^verbatim>\<open>filtered_news\<close> it computes, and \<open>None\<close> when the handler does not run.
  \<^verbatim>\<open>data.split("_", 1)[1]\<close> is the text after the first underscore.
\<close>

definition after_underscore :: "pystr \<Rightarrow> pystr" where
  "after_underscore data = drop (Suc (length (takeWhile (\<lambda>c. c \<noteq> 95) data))) data"

definition callback_emotion :: "state \<Rightarrow> int \<Rightarrow> pystr \<Rightarrow> news_item list option" where
  "callback_emotion st chat_id data =
     (if startswith data (ascii ''emotion_'') then
        (let selected_emotion = lower (after_underscore data);
             news_items = (case user_context st chat_id of Some l \<Rightarrow> l | None \<Rightarrow> [])
         in Some (filter (\<lambda>news.
                     lower (case predicted_emotion news of Some e \<Rightarrow> e | None \<Rightarrow> [])
                       = selected_emotion) news_items))
      else None)"


section \<open>The headline pattern in words\<close>

text \<open>
  What it means for a list of pieces to match a list of pattern items, without any order
  of search: each piece has a length the item allows and consists of characters of its
  class, the anchors and parentheses take no text, and the end anchor stands where only
  an optional final newline follows. \<open>tail\<close> is the input after the last piece.
\<close>

fun fits :: "item list \<Rightarrow> nat \<Rightarrow> pystr list \<Rightarrow> pystr \<Rightarrow> bool" where
  "fits [] pos [] tail = True"
| "fits (Rep c lo hi greedy # r) pos (ch # cs) tail =
     (lo \<le> length ch \<and> (case hi of None \<Rightarrow> True | Some h \<Rightarrow> length ch \<le> h)
      \<and> list_all (in_class c) ch \<and> fits r (pos + length ch) cs tail)"
| "fits (Bos # r) pos (ch # cs) tail = (ch = [] \<and> pos = 0 \<and> fits r pos cs tail)"
| "fits (Eos # r) pos (ch # cs) tail =
     (ch = [] \<and> (concat cs @ tail = [] \<or> concat cs @ tail = [10]) \<and> fits r pos cs tail)"
| "fits (Open g # r) pos (ch # cs) tail = (ch = [] \<and> fits r pos cs tail)"
| "fits (Close g # r) pos (ch # cs) tail = (ch = [] \<and> fits r pos cs tail)"
| "fits _ pos _ tail = False"

text \<open>
  The pattern as the specification words it: leading text, a time \<open>HH:MM\<close>, a comma,
  optional whitespace, a date \<open>D Month YYYY\<close>, trailing text. The leading and trailing
  text stay on one line (the dot of the pattern does not match a newline; the end anchor
  allows one final newline).
\<close>

definition hhmm :: "pystr \<Rightarrow> bool" where
  "hhmm t = (\<exists>a b c d. t = [a, b, 58, c, d] \<and> is_digit a \<and> is_digit b \<and> is_digit c \<and> is_digit d)"

definition d_month_yyyy :: "pystr \<Rightarrow> bool" where
  "d_month_yyyy x =
     (\<exists>day sp1 month sp2 year.
        x = day @ sp1 @ month @ sp2 @ year
        \<and> (length day = 1 \<or> length day = 2) \<and> list_all is_digit day
        \<and> sp1 \<noteq> [] \<and> list_all is_space sp1
        \<and> month \<noteq> [] \<and> list_all (\<lambda>c. \<not> is_space c) month
        \<and> sp2 \<noteq> [] \<and> list_all is_space sp2
        \<and> length year = 4 \<and> list_all is_digit year)"

definition matches_pattern :: "pystr \<Rightarrow> bool" where
  "matches_pattern h =
     (\<exists>main_text time_str sep date_str trailing.
        h = main_text @ time_str @ [44] @ sep @ date_str @ trailing
        \<and> 10 \<notin> set main_text \<and> hhmm time_str \<and> list_all is_space sep
        \<and> d_month_yyyy date_str \<and> 10 \<notin> set (butlast trailing))"

section \<open>The classifier as the program sees it\<close>

text \<open>
  The label an item gets from an answer of the classifier: the first of the returned
  labels, and the label for failed classification when the call raises or returns no
  label.
\<close>

definition chosen_label :: "exn + pystr list \<Rightarrow> pystr" where
  "chosen_label result = (case result of Inr (l # ls) \<Rightarrow> l | _ \<Rightarrow> UNDETERMINED)"

text \<open>
  The interface of the zero-shot pipeline: the labels of a result are the candidate
  labels of the call, ordered by score.
\<close>

definition classifier_ranks_given_labels :: "env \<Rightarrow> bool" where
  "classifier_ranks_given_labels env =
     (\<forall>n t ls r. classifier env n t ls = Inr r \<longrightarrow> set r \<subseteq> set ls)"

section \<open>Example inputs\<close>

text \<open>An environment where every request times out and the classifier echoes its labels.\<close>

definition failing_env :: env where
  "failing_env =
     \<lparr>fetchPage = (\<lambda>n u. Inl (OtherException (ascii ''timeout''))),
      classifier = (\<lambda>n t ls. Inr ls)\<rparr>"

definition initial_state :: state where
  "initial_state =
     \<lparr>requests = [], classifier_calls = 0, error_log = [], user_context = Map.empty\<rparr>"

definition headline_example :: pystr where
  "headline_example = [1042, 1072, 1078, 1085, 1072, 1103, 32, 1085, 1086, 1074, 1086, 1089,
     1090, 1100, 49, 54, 58, 52, 53, 44, 32, 51, 32, 1084, 1072, 1088, 1090, 1072, 32, 50,
     48, 50, 53, 1076, 1086, 1087, 46, 1090, 1077, 1082, 1089, 1090]"

definition headline_example_formatted :: pystr where
  "headline_example_formatted = [1042, 1072, 1078, 1085, 1072, 1103, 32, 1085, 1086, 1074,
     1086, 1089, 1090, 1100, 44, 32, 49, 54, 58, 52, 53, 44, 32, 51, 32, 1084, 1072, 1088,
     1090, 1072, 32, 50, 48, 50, 53]"

definition plain_headline :: pystr where
  "plain_headline = ascii ''Plain headline text''"

text \<open>
  A day page with four links: two with the same address and a long enough text, one with
  that address and the text \<^verbatim>\<open>ab\<close>, and one with another address.
\<close>

definition dup_page :: page where
  "dup_page =
     \<lparr>anchors = [(ascii ''Old headline text'', ascii ''/news/x''),
                 (ascii ''ab'', ascii ''/news/x''),
                 (ascii ''New headline text'', ascii ''https://lenta.ru/news/x''),
                 (ascii ''Another headline'', ascii ''news/y'')],
      body_paragraph = None, first_paragraph = None\<rparr>"

definition dup_env :: env where
  "dup_env = \<lparr>fetchPage = (\<lambda>n u. Inr dup_page), classifier = (\<lambda>n t ls. Inr ls)\<rparr>"

text \<open>
  An environment whose second classifier call raises, and a batch of three fresh items.
\<close>

definition flaky_env :: env where
  "flaky_env =
     \<lparr>fetchPage = (\<lambda>n u. Inl (OtherException (ascii ''timeout''))),
      classifier = (\<lambda>n t ls. if n = 1 then Inl (OtherException (ascii ''model error''))
                              else Inr ls)\<rparr>"

definition fresh_item :: "pystr \<Rightarrow> pystr \<Rightarrow> news_item" where
  "fresh_item h u =
     \<lparr>headline = h, url = u, date = None, combined_text = None, predicted_emotion = None\<rparr>"

definition three_items :: "news_item list" where
  "three_items =
     [fresh_item (ascii ''First headline text'') (ascii ''https://lenta.ru/news/a''),
      fresh_item (ascii ''Second headline text'') (ascii ''https://lenta.ru/news/b''),
      fresh_item (ascii ''Third headline text'') (ascii ''https://lenta.ru/news/c'')]"

text \<open>
  The link text \<^verbatim>\<open>Internet i SMI\<close> in Russian, as the site writes the name of its section,
  and the first candidate label with a capital first letter.
\<close>

definition smi_link_text :: pystr where
  "smi_link_text = [1048, 1085, 1090, 1077, 1088, 1085, 1077, 1090, 32, 1080, 32, 1057, 1052,
     1048]"

definition capital_label :: pystr where
  "capital_label = [1040, 1075, 1088, 1077, 1089, 1089, 1080, 1103]"

section \<open>Fetch failures\<close>

text \<open>
  Claim C9. When the request for the page of a day raises, \<open>get_news_for_day\<close> returns the
  empty list, and when the request for an article raises, \<open>get_first_sentence\<close> returns
  the empty string. In both cases the function returns normally: the only traces are the
  request itself and one more message in the error log.
\<close>

theorem fetch_failure_recovered:
  "(fetchPage env (length (requests st)) (day_url d) = Inl e \<longrightarrow>
      get_news_for_day env d st =
        ([], st\<lparr>requests := requests st @ [day_url d],
                error_log := error_log st
                  @ [day_error_prefix @ day_url d @ [58, 32] @ exn_str e]\<rparr>))
   \<and> (fetchPage env (length (requests st)) u = Inl e' \<longrightarrow>
      get_first_sentence env u st =
        ([], st\<lparr>requests := requests st @ [u],
                error_log := error_log st
                  @ [article_error_prefix @ u @ [58, 32] @ exn_str e']\<rparr>))"
  by (simp add: get_news_for_day_def get_first_sentence_def do_fetch_def logging_error_def
      Let_def)

theorem fetch_failure_recovered_witness:
  "fetchPage failing_env (length (requests initial_state)) (day_url 739312)
     = Inl (OtherException (ascii ''timeout''))
   \<and> fst (get_news_for_day failing_env 739312 initial_state) = []
   \<and> length (error_log (snd (get_news_for_day failing_env 739312 initial_state))) = 1
   \<and> fetchPage failing_env (length (requests initial_state)) (ascii ''https://lenta.ru/x'')
     = Inl (OtherException (ascii ''timeout''))
   \<and> fst (get_first_sentence failing_env (ascii ''https://lenta.ru/x'') initial_state) = []
   \<and> length (error_log (snd (get_first_sentence failing_env (ascii ''https://lenta.ru/x'')
        initial_state))) = 1"
  using fetch_failure_recovered [of failing_env initial_state 739312
      "OtherException (ascii ''timeout'')" "ascii ''https://lenta.ru/x''"
      "OtherException (ascii ''timeout'')"]
  by (simp add: failing_env_def initial_state_def)

section \<open>Date ranges\<close>

text \<open>
  Claim C10. When the start date is later than the end date, \<open>get_news_for_date_range\<close>
  returns the empty dictionary and leaves the state as it was: no page is requested and
  nothing is logged.
\<close>

theorem reversed_range_is_empty:
  "end_date < start_date \<Longrightarrow>
     get_news_for_date_range env start_date end_date st = (Inr [], st)"
  by (simp add: get_news_for_date_range_def range_loop.simps)

theorem reversed_range_is_empty_witness:
  "(739311 :: int) < 739312
   \<and> get_news_for_date_range failing_env 739312 739311 initial_state
       = (Inr [], initial_state)"
  using reversed_range_is_empty [of 739311 739312 failing_env initial_state]
  by simp

text \<open>
  For a start date that is a date and an end date before the last date of the type, the
  loop returns a dictionary whose keys are the days from the start to the end, each
  once, whatever the crawl of a day returns.
\<close>

lemma range_loop_keys:
  "end_date < MAXORDINAL \<Longrightarrow> 1 \<le> current_date \<Longrightarrow>
     \<exists>m st'. range_loop env current_date end_date news_by_day st = (Inr m, st')
       \<and> fst ` set m = fst ` set news_by_day \<union> {current_date..end_date}
       \<and> (distinct (map fst news_by_day) \<longrightarrow> distinct (map fst m))"
proof (induction env current_date end_date news_by_day st rule: range_loop.induct)
  case (1 env current_date end_date news_by_day st)
  show ?case
  proof (cases "current_date \<le> end_date")
    case False
    then show ?thesis by (simp add: range_loop.simps)
  next
    case True
    obtain items st1 where day: "get_news_for_day env current_date st = (items, st1)"
      by (cases "get_news_for_day env current_date st")
    from True "1.prems" have later: "1 \<le> current_date + 1" by simp
    from True "1.prems" have next_day: "add_one_day current_date = Inr (current_date + 1)"
      by (simp add: add_one_day_def Let_def)
    from "1.IH" [OF True day [symmetric] next_day "1.prems"(1) later]
    obtain m st' where
      run: "range_loop env (current_date + 1) end_date
              (AList.update current_date items news_by_day) st1 = (Inr m, st')"
      and keys: "fst ` set m = fst ` set (AList.update current_date items news_by_day)
              \<union> {current_date + 1..end_date}"
      and dist: "distinct (map fst (AList.update current_date items news_by_day))
              \<longrightarrow> distinct (map fst m)"
      by blast
    have "range_loop env current_date end_date news_by_day st = (Inr m, st')"
      using True day next_day run by (subst range_loop.simps) simp
    moreover have "fst ` set m = fst ` set news_by_day \<union> {current_date..end_date}"
      using keys True by (auto simp: dom_update)
    moreover have "distinct (map fst news_by_day) \<longrightarrow> distinct (map fst m)"
      using dist by (simp add: distinct_update)
    ultimately show ?thesis by blast
  qed
qed

lemma range_before_last_date:
  "valid_date start_date \<Longrightarrow> end_date < MAXORDINAL \<Longrightarrow>
     \<exists>m st'. get_news_for_date_range env start_date end_date st = (Inr m, st')
       \<and> fst ` set m = {start_date..end_date} \<and> distinct (map fst m)"
  using range_loop_keys [where end_date = end_date and current_date = start_date
      and news_by_day = "[]" and env = env and st = st]
  by (simp add: get_news_for_date_range_def valid_date_def)

lemma last_dates:
  "ord2ymd 3652058 = (9999, 12, 30) \<and> ord2ymd 3652059 = (9999, 12, 31)
   \<and> MAXORDINAL = 3652059"
  by code_simp

text \<open>
  Claim C5 at the last date. From 9999-12-30 (ordinal 3652058) to 9999-12-31 (ordinal
  3652059) both days are crawled, then the step past the last date raises
  \<^verbatim>\<open>OverflowError\<close>: no dictionary is returned.
\<close>

theorem range_to_last_date_raises:
  "get_news_for_date_range env 3652058 3652059 st
     = (Inl (OverflowError (ascii ''date value out of range'')),
        snd (get_news_for_day env 3652059 (snd (get_news_for_day env 3652058 st))))"
  unfolding get_news_for_date_range_def
  apply (subst range_loop.simps)
  apply (simp add: add_one_day_def MAXORDINAL_def Let_def split: prod.splits)
  apply (subst range_loop.simps)
  apply (simp add: add_one_day_def MAXORDINAL_def Let_def split: prod.splits)
  done

section \<open>Progress\<close>

text \<open>
  Claim C6 at 29 items done of 50. The quotient \<^verbatim>\<open>29 / 50\<close> is rounded to a float below
  0.58, its product with 100 is rounded to a float below 58, and \<^verbatim>\<open>int\<close> truncates it
  to 57, while the floor of the exact value is 58.
\<close>

theorem percent_29_of_50:
  "update_progress_percent
     \<lparr>progress_count = 29, progress_total = 50, progress_done = False\<rparr> = 57
   \<and> (29 * 100) div 50 = (58 :: int)"
  by code_simp

text \<open>
  The bar itself is as the specification says: for a percentage from 0 to 100 the number
  of filled segments is the tenth of the percentage, rounded down, ten segments are
  shown, and the percentage follows.
\<close>

lemma filled_blocks_0_100: "list_all (\<lambda>p. filled_blocks p 10 = p div 10) [0..100]"
  by code_simp

lemma format_progress_segments:
  assumes "0 \<le> percent" "percent \<le> 100"
  shows "format_progress percent
     = replicate (nat (percent div 10)) 128309 @ replicate (nat (10 - percent div 10)) 9898
         @ [32] @ str_int percent @ [37]"
proof -
  from assms have "percent \<in> set [0..100]" by simp
  with filled_blocks_0_100 have "filled_blocks percent 10 = percent div 10"
    by (simp add: list_all_iff)
  then show ?thesis by (simp add: format_progress_def Let_def)
qed

section \<open>Deduplication\<close>

lemma url_dict_snoc:
  "url_dict (xs @ [x]) = AList.update (url x) x (url_dict xs)"
  by (simp add: url_dict_def)

lemma url_dict_distinct: "distinct (map fst (url_dict xs))"
  by (induction xs rule: rev_induct) (simp_all add: url_dict_def distinct_update)

lemma url_dict_lookup:
  "map_of (url_dict xs) k =
     (if k \<in> url ` set xs then Some (last (filter (\<lambda>c. url c = k) xs)) else None)"
proof (induction xs rule: rev_induct)
  case Nil
  show ?case by (simp add: url_dict_def)
next
  case (snoc x xs)
  show ?case
    by (simp add: url_dict_snoc update_conv' snoc.IH)
qed

lemma url_dict_keys: "fst ` set (url_dict xs) = url ` set xs"
  by (induction xs rule: rev_induct) (auto simp: url_dict_snoc dom_update url_dict_def)

lemma last_filter_sat: "filter P xs \<noteq> [] \<Longrightarrow> P (last (filter P xs))"
  using last_in_set [of "filter P xs"] by auto

lemma url_dict_entry:
  assumes "(k, v) \<in> set (url_dict xs)"
  shows "url v = k \<and> v = last (filter (\<lambda>c. url c = k) xs)"
proof -
  have "map_of (url_dict xs) k = Some v"
    using assms url_dict_distinct by simp
  then have in_dom: "k \<in> url ` set xs" and v: "v = last (filter (\<lambda>c. url c = k) xs)"
    by (auto simp: url_dict_lookup split: if_splits)
  from in_dom have "filter (\<lambda>c. url c = k) xs \<noteq> []"
    by (auto simp: filter_empty_conv)
  then have "url (last (filter (\<lambda>c. url c = k) xs)) = k"
    by (rule last_filter_sat)
  with v show ?thesis by simp
qed

lemma unique_news_urls: "map url (unique_news xs) = map fst (url_dict xs)"
  unfolding unique_news_def
  by (auto dest: url_dict_entry)

lemma dup_page_candidates:
  "crawl_loop (anchors dup_page) []
     = [\<lparr>headline = ascii ''Old headline text'', url = ascii ''https://lenta.ru/news/x'',
          date = None, combined_text = None, predicted_emotion = None\<rparr>,
        \<lparr>headline = ascii ''New headline text'', url = ascii ''https://lenta.ru/news/x'',
          date = None, combined_text = None, predicted_emotion = None\<rparr>,
        \<lparr>headline = ascii ''Another headline'', url = ascii ''https://lenta.ru/news/y'',
          date = None, combined_text = None, predicted_emotion = None\<rparr>]"
  by code_simp

lemma dup_page_unique:
  "map (\<lambda>i. (headline i, url i)) (unique_news (crawl_loop (anchors dup_page) []))
     = [(ascii ''New headline text'', ascii ''https://lenta.ru/news/x''),
        (ascii ''Another headline'', ascii ''https://lenta.ru/news/y'')]"
  by code_simp

text \<open>
  Claim C1. The candidates of a day are the links that pass both filters, in document
  order: the list \<open>news_items\<close> the loop builds, \<open>crawl_loop (anchors soup) []\<close>. For every
  list of candidates the result holds each address exactly once, and the item kept for
  an address is the last candidate with that address.
\<close>

theorem dedup_last_wins:
  "fetchPage env (length (requests st)) (day_url d) = Inr soup \<Longrightarrow>
     fst (get_news_for_day env d st) = unique_news (crawl_loop (anchors soup) [])
     \<and> distinct (map url (unique_news news_items))
     \<and> set (map url (unique_news news_items)) = set (map url news_items)
     \<and> (\<forall>item \<in> set (unique_news news_items).
          item = last (filter (\<lambda>c. url c = url item) news_items))"
proof (intro conjI ballI)
  assume "fetchPage env (length (requests st)) (day_url d) = Inr soup"
  then show "fst (get_news_for_day env d st) = unique_news (crawl_loop (anchors soup) [])"
    by (simp add: get_news_for_day_def do_fetch_def Let_def)
next
  show "distinct (map url (unique_news news_items))"
    by (simp only: unique_news_urls url_dict_distinct)
next
  have "set (map url (unique_news news_items)) = fst ` set (url_dict news_items)"
    by (simp only: unique_news_urls set_map)
  then show "set (map url (unique_news news_items)) = set (map url news_items)"
    by (simp add: url_dict_keys)
next
  fix item assume "item \<in> set (unique_news news_items)"
  then obtain k where "(k, item) \<in> set (url_dict news_items)"
    by (auto simp: unique_news_def)
  then show "item = last (filter (\<lambda>c. url c = url item) news_items)"
    using url_dict_entry by blast
qed

theorem dedup_last_wins_witness:
  "fetchPage dup_env (length (requests initial_state)) (day_url 739312) = Inr dup_page
   \<and> map (\<lambda>i. (headline i, url i)) (fst (get_news_for_day dup_env 739312 initial_state))
       = [(ascii ''New headline text'', ascii ''https://lenta.ru/news/x''),
          (ascii ''Another headline'', ascii ''https://lenta.ru/news/y'')]"
proof -
  have fetched: "fetchPage dup_env (length (requests initial_state)) (day_url 739312)
      = Inr dup_page"
    by (simp add: dup_env_def)
  from dedup_last_wins [OF fetched, of "crawl_loop (anchors dup_page) []"]
  have "fst (get_news_for_day dup_env 739312 initial_state)
      = unique_news (crawl_loop (anchors dup_page) [])"
    by simp
  with fetched dup_page_unique show ?thesis by simp
qed

section \<open>The headline formatter\<close>

lemma first_success_Some:
  "first_success f ks = Some r \<Longrightarrow> \<exists>k \<in> set ks. f k = Some r"
  by (induction ks) (auto split: option.splits)

lemma first_success_exists:
  "k \<in> set ks \<Longrightarrow> f k = Some r \<Longrightarrow> \<exists>r'. first_success f ks = Some r'"
  by (induction ks) (auto split: option.splits)

lemma counts_set:
  "k \<in> set (counts c lo hi greedy s) \<longleftrightarrow>
     lo \<le> k \<and> k \<le> length (takeWhile (in_class c) s)
     \<and> (case hi of None \<Rightarrow> True | Some h \<Rightarrow> k \<le> h)"
  by (auto simp: counts_def Let_def split: option.splits if_splits)

lemma take_in_class:
  assumes k: "k \<le> length (takeWhile P s)"
  shows "list_all P (take k s) \<and> length (take k s) = k"
proof -
  have "take k s = take k (takeWhile P s) @ take (k - length (takeWhile P s)) (dropWhile P s)"
    using take_append [of k "takeWhile P s" "dropWhile P s"] by simp
  with k have eq: "take k s = take k (takeWhile P s)" by simp
  have "list_all P (takeWhile P s)" by (simp add: list_all_iff) (meson set_takeWhileD)
  then have "list_all P (take k (takeWhile P s))"
    by (auto simp: list_all_iff dest: in_set_takeD)
  with eq k show ?thesis by simp
qed

lemma prefix_in_takeWhile:
  "list_all P ch \<Longrightarrow> length ch \<le> length (takeWhile P (ch @ rest))"
  by (induction ch) auto

lemma run_sound:
  "run items pos s = Some chunks \<Longrightarrow> \<exists>tail. fits items pos chunks tail \<and> s = concat chunks @ tail"
proof (induction items arbitrary: pos s chunks)
  case Nil
  then show ?case by simp
next
  case (Cons i items)
  show ?case
  proof (cases i)
    case (Rep c lo hi greedy)
    with Cons.prems obtain k where k: "k \<in> set (counts c lo hi greedy s)"
      and r: "map_option (Cons (take k s)) (run items (pos + k) (drop k s)) = Some chunks"
      by (auto dest: first_success_Some)
    from r obtain cs where cs: "run items (pos + k) (drop k s) = Some cs"
      and chunks: "chunks = take k s # cs" by auto
    from Cons.IH [OF cs] obtain tail where ih: "fits items (pos + k) cs tail"
      and tail: "drop k s = concat cs @ tail" by blast
    from k have b: "lo \<le> k" "k \<le> length (takeWhile (in_class c) s)"
      "(case hi of None \<Rightarrow> True | Some h \<Rightarrow> k \<le> h)" by (auto simp: counts_set)
    from take_in_class [OF b(2)] have t: "list_all (in_class c) (take k s)"
      "length (take k s) = k" by auto
    have "s = take k s @ drop k s" by simp
    with tail have "s = concat chunks @ tail" by (simp add: chunks)
    moreover have "fits (i # items) pos chunks tail"
      using Rep b t ih chunks by (simp split: option.splits)
    ultimately show ?thesis by blast
  next
    case Bos
    with Cons.prems obtain cs where "run items pos s = Some cs" "chunks = [] # cs" "pos = 0"
      by (auto split: if_splits)
    with Cons.IH [of pos s cs] Bos show ?thesis by auto
  next
    case Eos
    with Cons.prems obtain cs where "run items pos s = Some cs" "chunks = [] # cs"
      "s = [] \<or> s = [10]"
      by (auto split: if_splits)
    with Cons.IH [of pos s cs] Eos show ?thesis by auto
  next
    case (Open g)
    with Cons.prems obtain cs where "run items pos s = Some cs" "chunks = [] # cs"
      by auto
    with Cons.IH [of pos s cs] Open show ?thesis by auto
  next
    case (Close g)
    with Cons.prems obtain cs where "run items pos s = Some cs" "chunks = [] # cs"
      by auto
    with Cons.IH [of pos s cs] Close show ?thesis by auto
  qed
qed

lemma fits_step:
  "fits (i # r) pos chunks tail \<Longrightarrow> \<exists>ch cs. chunks = ch # cs"
  by (cases chunks; cases i) auto

lemma run_complete:
  "fits items pos chunks tail \<Longrightarrow> \<exists>cs. run items pos (concat chunks @ tail) = Some cs"
proof (induction items arbitrary: pos chunks)
  case Nil
  then show ?case by simp
next
  case (Cons i items)
  from fits_step [OF Cons.prems] obtain ch cs where chunks: "chunks = ch # cs" by blast
  show ?case
  proof (cases i)
    case (Rep c lo hi greedy)
    let ?s = "concat chunks @ tail"
    from Cons.prems Rep chunks have fit: "fits items (pos + length ch) cs tail"
      and b: "lo \<le> length ch" "(case hi of None \<Rightarrow> True | Some h \<Rightarrow> length ch \<le> h)"
      and cls: "list_all (in_class c) ch" by auto
    from Cons.IH [OF fit] obtain cs' where
      cs': "run items (pos + length ch) (concat cs @ tail) = Some cs'" by blast
    have "length ch \<le> length (takeWhile (in_class c) ?s)"
      using prefix_in_takeWhile [OF cls, of "concat cs @ tail"] by (simp add: chunks)
    with b have k: "length ch \<in> set (counts c lo hi greedy ?s)" by (simp add: counts_set)
    have f: "map_option (Cons (take (length ch) ?s))
        (run items (pos + length ch) (drop (length ch) ?s)) = Some (ch # cs')"
      using cs' by (simp add: chunks)
    from first_success_exists [of "length ch" "counts c lo hi greedy ?s"
        "\<lambda>k. map_option (Cons (take k ?s)) (run items (pos + k) (drop k ?s))", OF k f]
    show ?thesis by (simp add: Rep)
  next
    case Bos
    with Cons.prems chunks have "fits items pos cs tail" "ch = []" "pos = 0" by auto
    with Cons.IH [of pos cs] show ?thesis by (auto simp: Bos chunks)
  next
    case Eos
    with Cons.prems chunks have "fits items pos cs tail" "ch = []"
      "concat cs @ tail = [] \<or> concat cs @ tail = [10]" by auto
    with Cons.IH [of pos cs] show ?thesis by (auto simp: Eos chunks)
  next
    case (Open g)
    with Cons.prems chunks have "fits items pos cs tail" "ch = []" by auto
    with Cons.IH [of pos cs] show ?thesis by (auto simp: Open chunks)
  next
    case (Close g)
    with Cons.prems chunks have "fits items pos cs tail" "ch = []" by auto
    with Cons.IH [of pos cs] show ?thesis by (auto simp: Close chunks)
  qed
qed

lemma fits_Nil_iff: "fits [] pos chunks tail \<longleftrightarrow> chunks = []"
  by (cases chunks) auto

lemma fits_Rep_iff:
  "fits (Rep c lo hi greedy # r) pos chunks tail \<longleftrightarrow>
     (\<exists>ch cs. chunks = ch # cs \<and> lo \<le> length ch
        \<and> (case hi of None \<Rightarrow> True | Some h \<Rightarrow> length ch \<le> h)
        \<and> list_all (in_class c) ch \<and> fits r (pos + length ch) cs tail)"
  by (cases chunks) auto

lemma fits_Bos_iff:
  "fits (Bos # r) pos chunks tail \<longleftrightarrow> (\<exists>cs. chunks = [] # cs \<and> pos = 0 \<and> fits r pos cs tail)"
  by (cases chunks) auto

lemma fits_Eos_iff:
  "fits (Eos # r) pos chunks tail \<longleftrightarrow>
     (\<exists>cs. chunks = [] # cs \<and> (concat cs @ tail = [] \<or> concat cs @ tail = [10])
        \<and> fits r pos cs tail)"
  by (cases chunks) auto

lemma fits_Open_iff:
  "fits (Open g # r) pos chunks tail \<longleftrightarrow> (\<exists>cs. chunks = [] # cs \<and> fits r pos cs tail)"
  by (cases chunks) auto

lemma fits_Close_iff:
  "fits (Close g # r) pos chunks tail \<longleftrightarrow> (\<exists>cs. chunks = [] # cs \<and> fits r pos cs tail)"
  by (cases chunks) auto

lemmas fits_iffs = fits_Nil_iff fits_Rep_iff fits_Bos_iff fits_Eos_iff fits_Open_iff fits_Close_iff

lemma pattern_chunks:
  assumes "fits pattern 0 chunks tail"
  shows "\<exists>g1 d1 col d2 comma sep day sp1 month sp2 year trailing.
    chunks = [[], [], g1, [], [], d1, col, d2, [], comma, sep, [], day, sp1, month, sp2,
              year, [], [], trailing, [], []]
    \<and> (\<forall>x\<in>set g1. x \<noteq> 10)
    \<and> length d1 = 2 \<and> list_all is_digit d1
    \<and> length col = 1 \<and> list_all (\<lambda>c. c = 58) col
    \<and> length d2 = 2 \<and> list_all is_digit d2
    \<and> length comma = 1 \<and> list_all (\<lambda>c. c = 44) comma
    \<and> list_all is_space sep
    \<and> 1 \<le> length day \<and> length day \<le> 2 \<and> list_all is_digit day
    \<and> 1 \<le> length sp1 \<and> list_all is_space sp1
    \<and> 1 \<le> length month \<and> list_all (\<lambda>c. \<not> is_space c) month
    \<and> 1 \<le> length sp2 \<and> list_all is_space sp2
    \<and> length year = 4 \<and> list_all is_digit year
    \<and> (\<forall>x\<in>set trailing. x \<noteq> 10) \<and> (tail = [] \<or> tail = [10])"
  using assms unfolding pattern_def
  by (clarsimp simp: fits_iffs list_all_iff)

lemma two_elems: "length xs = 2 \<Longrightarrow> \<exists>a b. xs = [a, b]"
  by (cases xs; cases "tl xs") auto

lemma one_elem: "length xs = 1 \<Longrightarrow> list_all (\<lambda>c. c = v) xs \<Longrightarrow> xs = [v]"
  by (cases xs) auto

lemma butlast_no_newline:
  "10 \<notin> set trailing \<Longrightarrow> tail = [] \<or> tail = [10] \<Longrightarrow> (10::int) \<notin> set (butlast (trailing @ tail))"
proof (erule disjE)
  assume "10 \<notin> set trailing" "tail = []"
  then show ?thesis by (auto dest: in_set_butlastD)
next
  assume "10 \<notin> set trailing" "tail = [10]"
  then show ?thesis by (simp add: butlast_append)
qed

lemma format_matched:
  assumes "run pattern 0 raw = Some chunks"
  shows "\<exists>main_text time_str sep date_str trailing.
        raw = main_text @ time_str @ [44] @ sep @ date_str @ trailing
        \<and> 10 \<notin> set main_text \<and> hhmm time_str \<and> list_all is_space sep
        \<and> d_month_yyyy date_str \<and> 10 \<notin> set (butlast trailing)
        \<and> format_news_headline raw
            = strip main_text @ [44, 32] @ time_str @ [44, 32] @ date_str"
proof -
  from run_sound [OF assms] obtain tail where
    fit: "fits pattern 0 chunks tail" and raw: "raw = concat chunks @ tail" by blast
  from pattern_chunks [OF fit] obtain g1 d1 col d2 comma sep day sp1 month sp2 year
      trailing where
    chunks: "chunks = [[], [], g1, [], [], d1, col, d2, [], comma, sep, [], day, sp1, month,
       sp2, year, [], [], trailing, [], []]"
    and g1': "\<forall>x\<in>set g1. x \<noteq> 10"
    and d1: "length d1 = 2" "list_all is_digit d1"
    and col: "length col = 1" "list_all (\<lambda>c. c = 58) col"
    and d2: "length d2 = 2" "list_all is_digit d2"
    and comma: "length comma = 1" "list_all (\<lambda>c. c = 44) comma"
    and sep: "list_all is_space sep"
    and day: "1 \<le> length day" "length day \<le> 2" "list_all is_digit day"
    and sp1: "1 \<le> length sp1" "list_all is_space sp1"
    and month: "1 \<le> length month" "list_all (\<lambda>c. \<not> is_space c) month"
    and sp2: "1 \<le> length sp2" "list_all is_space sp2"
    and year: "length year = 4" "list_all is_digit year"
    and trailing': "\<forall>x\<in>set trailing. x \<noteq> 10" and tail: "tail = [] \<or> tail = [10]"
    by blast
  have g1: "10 \<notin> set g1" and trailing: "10 \<notin> set trailing"
    using g1' trailing' by auto
  let ?time = "d1 @ col @ d2" and ?date = "day @ sp1 @ month @ sp2 @ year"
  have col': "col = [58]" and comma': "comma = [44]"
    using col comma by (auto intro: one_elem)
  from two_elems [OF d1(1)] two_elems [OF d2(1)] d1(2) d2(2) col'
  have time: "hhmm ?time" by (auto simp: hhmm_def)
  have date: "d_month_yyyy ?date"
    unfolding d_month_yyyy_def
    apply (rule exI [of _ day], rule exI [of _ sp1], rule exI [of _ month],
        rule exI [of _ sp2], rule exI [of _ year])
    using day sp1 month sp2 year by auto
  have groups: "group_chunks 1 False pattern chunks = g1"
    "group_chunks 2 False pattern chunks = ?time"
    "group_chunks 3 False pattern chunks = ?date"
    by (simp_all add: pattern_def chunks)
  have out: "format_news_headline raw = strip g1 @ [44, 32] @ ?time @ [44, 32] @ ?date"
    using groups by (simp add: format_news_headline_def re_match_def assms Let_def)
  have split: "raw = g1 @ ?time @ [44] @ sep @ ?date @ (trailing @ tail)"
    using raw chunks comma' by simp
  from butlast_no_newline [OF trailing tail]
  have nl: "10 \<notin> set (butlast (trailing @ tail))" .
  from split g1 time sep date nl out show ?thesis by blast
qed

lemma split_trailing:
  assumes "(10::int) \<notin> set (butlast trailing)"
  shows "\<exists>body tail. trailing = body @ tail \<and> 10 \<notin> set body \<and> (tail = [] \<or> tail = [10])"
proof (cases trailing rule: rev_cases)
  case Nil
  then show ?thesis by simp
next
  case (snoc ys y)
  show ?thesis
  proof (cases "y = 10")
    case True
    with snoc assms have "trailing = ys @ [10]" "10 \<notin> set ys" by simp_all
    then show ?thesis by blast
  next
    case False
    with snoc assms have "trailing = trailing @ []" "10 \<notin> set trailing" by simp_all
    then show ?thesis by blast
  qed
qed

lemma nonempty_length: "xs \<noteq> [] \<Longrightarrow> Suc 0 \<le> length xs"
  by (cases xs) simp_all

lemma fits_pattern_intro:
  assumes "10 \<notin> set main_text"
    and "is_digit a" "is_digit b" "is_digit c" "is_digit d"
    and "list_all is_space sep"
    and "length day = 1 \<or> length day = 2" "list_all is_digit day"
    and "sp1 \<noteq> []" "list_all is_space sp1"
    and "month \<noteq> []" "list_all (\<lambda>c. \<not> is_space c) month"
    and "sp2 \<noteq> []" "list_all is_space sp2"
    and "length year = 4" "list_all is_digit year"
    and "10 \<notin> set body" "tail = [] \<or> tail = [10]"
  shows "fits pattern 0 [[], [], main_text, [], [], [a, b], [58], [c, d], [], [44], sep, [],
       day, sp1, month, sp2, year, [], [], body, [], []] tail"
proof -
  have "Suc 0 \<le> length day" "length day \<le> 2" using assms(7) by auto
  moreover note nonempty_length [OF assms(9)] nonempty_length [OF assms(11)]
    nonempty_length [OF assms(13)]
  ultimately show ?thesis
    unfolding pattern_def using assms
    by (simp add: list_all_iff) blast
qed


lemma shape_is_matched:
  assumes "matches_pattern raw"
  shows "\<exists>chunks. run pattern 0 raw = Some chunks"
proof -
  from assms obtain main_text time_str sep date_str trailing where
    raw: "raw = main_text @ time_str @ [44] @ sep @ date_str @ trailing"
    and main: "10 \<notin> set main_text" and time: "hhmm time_str"
    and sep: "list_all is_space sep" and date: "d_month_yyyy date_str"
    and trailing: "10 \<notin> set (butlast trailing)"
    unfolding matches_pattern_def by blast
  from time obtain a b c d where t: "time_str = [a, b, 58, c, d]"
    and dig: "is_digit a" "is_digit b" "is_digit c" "is_digit d"
    unfolding hhmm_def by blast
  from date obtain day sp1 month sp2 year where
    d: "date_str = day @ sp1 @ month @ sp2 @ year"
    and day: "length day = 1 \<or> length day = 2" "list_all is_digit day"
    and sp1: "sp1 \<noteq> []" "list_all is_space sp1"
    and month: "month \<noteq> []" "list_all (\<lambda>c. \<not> is_space c) month"
    and sp2: "sp2 \<noteq> []" "list_all is_space sp2"
    and year: "length year = 4" "list_all is_digit year"
    unfolding d_month_yyyy_def by blast
  from split_trailing [OF trailing] obtain body tail where
    tr: "trailing = body @ tail" and body: "10 \<notin> set body"
    and tail: "tail = [] \<or> tail = [10]" by blast
  let ?chunks = "[[], [], main_text, [], [], [a, b], [58], [c, d], [], [44], sep, [], day, sp1,
       month, sp2, year, [], [], body, [], []]"
  have "fits pattern 0 ?chunks tail"
    by (rule fits_pattern_intro [OF main dig sep day sp1 month sp2 year body tail])
  from run_complete [OF this] obtain cs where "run pattern 0 (concat ?chunks @ tail) = Some cs"
    by blast
  moreover have "concat ?chunks @ tail = raw" by (simp add: raw t d tr)
  ultimately show ?thesis by auto
qed

lemma matches_pattern_iff: "matches_pattern raw \<longleftrightarrow> run pattern 0 raw \<noteq> None"
proof
  assume "matches_pattern raw"
  from shape_is_matched [OF this] show "run pattern 0 raw \<noteq> None" by auto
next
  assume "run pattern 0 raw \<noteq> None"
  then obtain chunks where "run pattern 0 raw = Some chunks" by auto
  from format_matched [OF this] show "matches_pattern raw"
    unfolding matches_pattern_def by blast
qed

lemma headline_example_eval:
  "format_news_headline headline_example = headline_example_formatted"
  by code_simp

lemma headline_example_run: "run pattern 0 headline_example \<noteq> None"
  by code_simp

lemma plain_headline_run: "run pattern 0 plain_headline = None"
  by code_simp

text \<open>
  Claim C8. A headline that has the shape of the pattern is returned as its leading text
  without surrounding whitespace, its time and its date, joined by a comma and a space,
  for some way of reading the headline in that shape; the text after the date is not
  part of the result. Every other headline is returned unchanged. The example of the
  specification is returned as the specification says.
\<close>

theorem headline_format_cases:
  "(matches_pattern raw \<longrightarrow>
      (\<exists>main_text time_str sep date_str trailing.
         raw = main_text @ time_str @ [44] @ sep @ date_str @ trailing
         \<and> hhmm time_str \<and> list_all is_space sep \<and> d_month_yyyy date_str
         \<and> format_news_headline raw
             = strip main_text @ [44, 32] @ time_str @ [44, 32] @ date_str))
   \<and> (\<not> matches_pattern raw \<longrightarrow> format_news_headline raw = raw)
   \<and> format_news_headline headline_example = headline_example_formatted"
proof (intro conjI impI)
  assume "matches_pattern raw"
  then obtain chunks where "run pattern 0 raw = Some chunks"
    using shape_is_matched by blast
  from format_matched [OF this]
  show "\<exists>main_text time_str sep date_str trailing.
         raw = main_text @ time_str @ [44] @ sep @ date_str @ trailing
         \<and> hhmm time_str \<and> list_all is_space sep \<and> d_month_yyyy date_str
         \<and> format_news_headline raw
             = strip main_text @ [44, 32] @ time_str @ [44, 32] @ date_str"
    by blast
next
  assume "\<not> matches_pattern raw"
  then have "run pattern 0 raw = None" by (simp add: matches_pattern_iff)
  then show "format_news_headline raw = raw"
    by (simp add: format_news_headline_def re_match_def)
next
  show "format_news_headline headline_example = headline_example_formatted"
    by (rule headline_example_eval)
qed

theorem headline_format_cases_witness:
  "matches_pattern headline_example
   \<and> format_news_headline headline_example = headline_example_formatted
   \<and> \<not> matches_pattern plain_headline
   \<and> format_news_headline plain_headline = plain_headline"
  using headline_format_cases [of plain_headline] headline_format_cases [of headline_example]
    headline_example_run plain_headline_run
  by (simp add: matches_pattern_iff)

section \<open>The classification loop\<close>

lemma get_first_sentence_calls:
  "classifier_calls (snd (get_first_sentence env u st)) = classifier_calls st"
  by (simp add: get_first_sentence_def do_fetch_def logging_error_def Let_def
      split: sum.splits)

lemma top_label_result:
  "top_label env ct st = (r, st') \<Longrightarrow>
     classifier_calls st' = Suc (classifier_calls st)
     \<and> (case r of Inr l \<Rightarrow> l | Inl e \<Rightarrow> UNDETERMINED)
         = chosen_label (classifier env (classifier_calls st) ct CANDIDATE_LABELS)"
  by (auto simp: top_label_def chosen_label_def Let_def split: sum.splits list.splits)

lemma tag_item_result:
  assumes "tag_item env news st pr = (news', st', pr')"
  shows "\<exists>ct. combined_text news' = Some ct
      \<and> predicted_emotion news'
          = Some (chosen_label (classifier env (classifier_calls st) ct CANDIDATE_LABELS))
      \<and> headline news' = headline news \<and> url news' = url news \<and> date news' = date news
      \<and> classifier_calls st' = Suc (classifier_calls st)
      \<and> progress_count pr' = progress_count pr + 1
      \<and> progress_total pr' = progress_total pr
      \<and> progress_done pr' = progress_done pr"
proof -
  obtain fs st1 where g: "get_first_sentence env (url news) st = (fs, st1)"
    by (cases "get_first_sentence env (url news) st")
  then have c1: "classifier_calls st1 = classifier_calls st"
    using get_first_sentence_calls [of env "url news" st] by simp
  define ct where "ct = (if fs \<noteq> [] then headline news @ [46, 32] @ fs else headline news)"
  obtain r st2 where t: "top_label env ct st1 = (r, st2)"
    by (cases "top_label env ct st1")
  from top_label_result [OF t] c1 have
    c2: "classifier_calls st2 = Suc (classifier_calls st)"
    and lab: "(case r of Inr l \<Rightarrow> l | Inl e \<Rightarrow> UNDETERMINED)
       = chosen_label (classifier env (classifier_calls st) ct CANDIDATE_LABELS)"
    by simp_all
  show ?thesis
  proof (cases r)
    case (Inl e)
    with assms g t lab c2 show ?thesis
      by (auto simp: tag_item_def Let_def ct_def logging_error_def)
  next
    case (Inr l)
    with assms g t lab c2 show ?thesis
      by (auto simp: tag_item_def Let_def ct_def)
  qed
qed

lemma tag_loop_result:
  "tag_loop env items st pr = (tagged, st', pr') \<Longrightarrow>
     length tagged = length items
     \<and> progress_count pr' = progress_count pr + int (length items)
     \<and> progress_total pr' = progress_total pr
     \<and> progress_done pr' = progress_done pr
     \<and> classifier_calls st' = classifier_calls st + length items
     \<and> (\<forall>i<length items. \<exists>ct. combined_text (tagged ! i) = Some ct
          \<and> predicted_emotion (tagged ! i)
              = Some (chosen_label
                  (classifier env (classifier_calls st + i) ct CANDIDATE_LABELS))
          \<and> headline (tagged ! i) = headline (items ! i)
          \<and> url (tagged ! i) = url (items ! i))"
proof (induction items arbitrary: st pr tagged st' pr')
  case Nil
  then show ?case by simp
next
  case (Cons news rest)
  obtain news1 st1 pr1 where one: "tag_item env news st pr = (news1, st1, pr1)"
    by (cases "tag_item env news st pr")
  obtain rest1 st2 pr2 where more: "tag_loop env rest st1 pr1 = (rest1, st2, pr2)"
    by (cases "tag_loop env rest st1 pr1")
  from Cons.prems one more have res: "tagged = news1 # rest1" "st' = st2" "pr' = pr2"
    by simp_all
  note item = tag_item_result [OF one]
  note ih = Cons.IH [OF more]
  from item obtain ct where ct: "combined_text news1 = Some ct"
    "predicted_emotion news1
       = Some (chosen_label (classifier env (classifier_calls st) ct CANDIDATE_LABELS))"
    "headline news1 = headline news" "url news1 = url news"
    and step: "classifier_calls st1 = Suc (classifier_calls st)"
    "progress_count pr1 = progress_count pr + 1" "progress_total pr1 = progress_total pr"
    "progress_done pr1 = progress_done pr"
    by blast
  have "\<exists>ct. combined_text (tagged ! i) = Some ct
          \<and> predicted_emotion (tagged ! i)
              = Some (chosen_label
                  (classifier env (classifier_calls st + i) ct CANDIDATE_LABELS))
          \<and> headline (tagged ! i) = headline ((news # rest) ! i)
          \<and> url (tagged ! i) = url ((news # rest) ! i)"
    if "i < length (news # rest)" for i
  proof (cases i)
    case 0
    with ct res show ?thesis by simp
  next
    case (Suc j)
    with that have "j < length rest" by simp
    with ih have "\<exists>ct. combined_text (rest1 ! j) = Some ct
          \<and> predicted_emotion (rest1 ! j)
              = Some (chosen_label
                  (classifier env (classifier_calls st1 + j) ct CANDIDATE_LABELS))
          \<and> headline (rest1 ! j) = headline (rest ! j)
          \<and> url (rest1 ! j) = url (rest ! j)" by blast
    with Suc res step show ?thesis by simp
  qed
  moreover from ih step res have "length tagged = length (news # rest)"
    "progress_count pr' = progress_count pr + int (length (news # rest))"
    "progress_total pr' = progress_total pr" "progress_done pr' = progress_done pr"
    "classifier_calls st' = classifier_calls st + length (news # rest)"
    by simp_all
  ultimately show ?case by blast
qed

lemma tag_loop_take_count:
  "k \<le> length items \<Longrightarrow>
     progress_count (snd (snd (tag_loop env (take k items) st pr))) = progress_count pr + int k"
proof -
  assume k: "k \<le> length items"
  obtain tagged st' pr' where r: "tag_loop env (take k items) st pr = (tagged, st', pr')"
    by (cases "tag_loop env (take k items) st pr")
  from tag_loop_result [OF r] k show ?thesis by (simp add: r)
qed

lemma three_items_tagged:
  "(case tag_and_store flaky_env 7 three_items initial_state of
      (Some (tagged, pr), st') \<Rightarrow>
        map predicted_emotion tagged
          = [Some (hd CANDIDATE_LABELS), Some UNDETERMINED, Some (hd CANDIDATE_LABELS)]
        \<and> progress_count pr = 3 \<and> progress_done pr
    | (None, st') \<Rightarrow> False)"
  by code_simp

text \<open>
  Claim C7. For a batch that is not empty, \<open>process_date_input\<close> reaches the end of the
  loop: every item, in order, gets the first label of the answer to its own classifier
  call, or the label for failed classification when that call fails, and the items after
  a failed call are still classified. The counter is the number of items done after each
  item, so it is the length of the batch at the end, where \<open>done\<close> is set.
\<close>

theorem tagging_labels_and_progress:
  "aggregated_news \<noteq> [] \<Longrightarrow>
     \<exists>tagged pr st'.
       tag_and_store env chat_id aggregated_news st = (Some (tagged, pr), st')
       \<and> length tagged = length aggregated_news
       \<and> (\<forall>i<length aggregated_news. \<exists>ct. combined_text (tagged ! i) = Some ct
            \<and> predicted_emotion (tagged ! i)
                = Some (chosen_label
                    (classifier env (classifier_calls st + i) ct CANDIDATE_LABELS)))
       \<and> (\<forall>k\<le>length aggregated_news.
            progress_count (snd (snd (tag_loop env (take k aggregated_news) st
              (initial_progress aggregated_news)))) = int k)
       \<and> progress_count pr = int (length aggregated_news)
       \<and> progress_done pr"
proof -
  assume ne: "aggregated_news \<noteq> []"
  let ?pr0 = "initial_progress aggregated_news"
  obtain tagged st1 pr1 where r: "tag_loop env aggregated_news st ?pr0 = (tagged, st1, pr1)"
    by (cases "tag_loop env aggregated_news st ?pr0")
  note res = tag_loop_result [OF r]
  have store: "tag_and_store env chat_id aggregated_news st
      = (Some (tagged, pr1\<lparr>progress_done := True\<rparr>),
         st1\<lparr>user_context := (user_context st1)(chat_id \<mapsto> tagged)\<rparr>)"
    using ne r by (simp add: tag_and_store_def initial_progress_def Let_def)
  have labels: "\<forall>i<length aggregated_news. \<exists>ct. combined_text (tagged ! i) = Some ct
            \<and> predicted_emotion (tagged ! i)
                = Some (chosen_label
                    (classifier env (classifier_calls st + i) ct CANDIDATE_LABELS))"
    using res by blast
  have steps: "\<forall>k\<le>length aggregated_news.
            progress_count (snd (snd (tag_loop env (take k aggregated_news) st ?pr0))) = int k"
    using tag_loop_take_count [of _ aggregated_news env st ?pr0]
    by (simp add: initial_progress_def)
  have count: "progress_count (pr1\<lparr>progress_done := True\<rparr>) = int (length aggregated_news)"
    using res by (simp add: initial_progress_def)
  from store res labels steps count show ?thesis by simp
qed

theorem tagging_labels_and_progress_witness:
  "three_items \<noteq> []
   \<and> (\<exists>tagged pr st'.
        tag_and_store flaky_env 7 three_items initial_state = (Some (tagged, pr), st')
        \<and> map predicted_emotion tagged
            = [Some (hd CANDIDATE_LABELS), Some UNDETERMINED, Some (hd CANDIDATE_LABELS)]
        \<and> progress_count pr = 3 \<and> progress_done pr)"
proof -
  have ne: "three_items \<noteq> []" by (simp add: three_items_def)
  from tagging_labels_and_progress [OF ne, of flaky_env 7 initial_state]
  obtain tagged pr st' where
    "tag_and_store flaky_env 7 three_items initial_state = (Some (tagged, pr), st')"
    by blast
  with three_items_tagged ne show ?thesis by simp
qed

lemma chosen_label_in_labels:
  assumes "classifier_ranks_given_labels env"
  shows "chosen_label (classifier env n t CANDIDATE_LABELS) \<in> set CANDIDATE_LABELS
     \<or> chosen_label (classifier env n t CANDIDATE_LABELS) = UNDETERMINED"
proof (cases "classifier env n t CANDIDATE_LABELS")
  case (Inl e)
  then show ?thesis by (simp add: chosen_label_def)
next
  case (Inr r)
  with assms have "set r \<subseteq> set CANDIDATE_LABELS"
    unfolding classifier_ranks_given_labels_def by blast
  with Inr show ?thesis by (cases r) (auto simp: chosen_label_def)
qed

lemma flaky_env_contract: "classifier_ranks_given_labels flaky_env"
  by (simp add: classifier_ranks_given_labels_def flaky_env_def)

lemma three_items_labels:
  "map predicted_emotion
     (fst (tag_loop flaky_env three_items initial_state (initial_progress three_items)))
     = [Some (hd CANDIDATE_LABELS), Some UNDETERMINED, Some (hd CANDIDATE_LABELS)]"
  by code_simp

text \<open>
  Claim C2. When the classifier keeps to its interface, the loop returns as many items
  as it was given, and each of them holds one label, which is a candidate label or the
  label for failed classification.
\<close>

theorem label_invariant:
  "classifier_ranks_given_labels env \<Longrightarrow>
     length (fst (tag_loop env items st pr)) = length items
     \<and> (\<forall>item \<in> set (fst (tag_loop env items st pr)).
          \<exists>l. predicted_emotion item = Some l
            \<and> (l \<in> set CANDIDATE_LABELS \<or> l = UNDETERMINED))"
proof -
  assume contract: "classifier_ranks_given_labels env"
  obtain tagged st' pr' where r: "tag_loop env items st pr = (tagged, st', pr')"
    by (cases "tag_loop env items st pr")
  note res = tag_loop_result [OF r]
  have "\<exists>l. predicted_emotion item = Some l \<and> (l \<in> set CANDIDATE_LABELS \<or> l = UNDETERMINED)"
    if "item \<in> set tagged" for item
  proof -
    from that obtain i where i: "i < length tagged" "item = tagged ! i"
      by (auto simp: in_set_conv_nth)
    with res obtain ct where "predicted_emotion item
        = Some (chosen_label (classifier env (classifier_calls st + i) ct CANDIDATE_LABELS))"
      by auto
    with chosen_label_in_labels [OF contract] show ?thesis by auto
  qed
  with res r show ?thesis by simp
qed

theorem label_invariant_witness:
  "classifier_ranks_given_labels flaky_env
   \<and> length (fst (tag_loop flaky_env three_items initial_state (initial_progress three_items)))
       = 3
   \<and> map predicted_emotion
       (fst (tag_loop flaky_env three_items initial_state (initial_progress three_items)))
       = [Some (hd CANDIDATE_LABELS), Some UNDETERMINED, Some (hd CANDIDATE_LABELS)]"
  using label_invariant [OF flaky_env_contract, of three_items initial_state
      "initial_progress three_items"] three_items_labels flaky_env_contract
  by (simp add: three_items_def)

section \<open>Lower case\<close>

text \<open>
  Some values of \<open>lower\<close>: a Cyrillic capital outside the basic alphabet, Latin letters
  with an accent, the capital I with a dot above, and the capital sigma at the end of a
  word and inside one.
\<close>

lemma lower_examples:
  "lower [1168, 1074, 1072, 1083, 1090] = [1169, 1074, 1072, 1083, 1090]
   \<and> lower [201, 84, 201] = [233, 116, 233]
   \<and> lower [304] = [105, 775]
   \<and> lower [927, 916, 927, 931, 32, 931, 927, 934, 927, 931]
       = [959, 948, 959, 962, 32, 963, 959, 966, 959, 962]"
  by code_simp

text \<open>
  A string of digits, punctuation, small Latin letters and small Cyrillic letters is its
  own lower case: the table has no row for these code points.
\<close>

lemma table_delta_skip:
  "lo \<le> hi \<Longrightarrow> hi < c \<Longrightarrow>
     table_delta c ((lo, hi, step, delta) # rows) = table_delta c rows"
  by simp

lemma table_delta_stop: "c < lo \<Longrightarrow> table_delta c ((lo, hi, step, delta) # rows) = 0"
  by simp

lemma lowercase_cyrillic_fixed:
  assumes "1072 \<le> c" and "c < 1120"
  shows "table_delta c lower_table = 0"
  unfolding lower_table_def using assms
  by (simp add: table_delta_skip table_delta_stop del: table_delta.simps)

lemma low_code_points_fixed:
  assumes "c < 65 \<or> (91 \<le> c \<and> c < 192)"
  shows "table_delta c lower_table = 0"
  unfolding lower_table_def using assms
  by (auto simp add: table_delta_skip table_delta_stop simp del: table_delta.simps)

lemma lower_from_unchanged:
  assumes "\<forall>c \<in> set s. c \<noteq> 931 \<and> c \<noteq> 304 \<and> table_delta c lower_table = 0"
  shows "lower_from before s = s"
  using assms by (induction s arbitrary: before) (simp_all add: to_lower_full_def)

lemma lower_unchanged:
  assumes "\<forall>c \<in> set s. c < 65 \<or> (91 \<le> c \<and> c < 192) \<or> (1072 \<le> c \<and> c < 1120)"
  shows "lower s = s"
proof -
  have "c \<noteq> 931 \<and> c \<noteq> 304 \<and> table_delta c lower_table = 0" if "c \<in> set s" for c
  proof -
    from assms that
    consider "c < 65 \<or> (91 \<le> c \<and> c < 192)" | "1072 \<le> c \<and> c < 1120" by blast
    then show ?thesis
    proof cases
      case 1
      with low_code_points_fixed [OF 1] show ?thesis by auto
    next
      case 2
      with lowercase_cyrillic_fixed [of c] show ?thesis by auto
    qed
  qed
  then show ?thesis by (simp add: lower_def lower_from_unchanged)
qed

section \<open>The headline filter\<close>

text \<open>
  Sixteen of the seventeen entries of the blacklist are in lower case, and a headline
  that equals one of them up to letter case is discarded.
\<close>

lemma other_entries_plain:
  "list_all (\<lambda>e. \<forall>c \<in> set e. c < 65 \<or> (91 \<le> c \<and> c < 192) \<or> (1072 \<le> c \<and> c < 1120))
     (take 13 blacklisted_headlines @ drop 14 blacklisted_headlines)"
  by code_simp

lemma other_entries_lowercase:
  "list_all (\<lambda>e. lower e = e) (take 13 blacklisted_headlines @ drop 14 blacklisted_headlines)"
  using other_entries_plain lower_unchanged by (simp add: list_all_iff)

lemma lowercase_entry_discards:
  assumes "e \<in> set (take 13 blacklisted_headlines @ drop 14 blacklisted_headlines)"
    and "lower h = lower e"
  shows "headline_rejected h"
proof -
  from assms(1) other_entries_lowercase have "lower e = e" by (simp add: list_all_iff)
  moreover from assms(1) have "e \<in> set blacklisted_headlines"
    by (auto dest: in_set_takeD in_set_dropD)
  ultimately show ?thesis using assms(2) by (simp add: headline_rejected_def)
qed

text \<open>
  Nothing else is discarded at the headline filter: a discarded headline is empty, has
  at most ten characters, or its lower case is an entry of the blacklist.
\<close>

lemma rejected_only_if:
  assumes "headline_rejected h"
  shows "h = [] \<or> length h \<le> 10 \<or> (\<exists>e \<in> set blacklisted_headlines. lower h = e)"
  using assms by (auto simp: headline_rejected_def)

text \<open>
  Claim C3 at the fourteenth entry. The link text \<open>smi_link_text\<close> equals that entry up to
  letter case and is longer than ten characters, but the entry itself is not in lower
  case, so the lowered headline is not in the set: the headline passes the filter and
  the link becomes a news item.
\<close>

theorem smi_headline_not_discarded:
  "lower smi_link_text = lower (blacklisted_headlines ! 13)
   \<and> \<not> headline_rejected (format_news_headline smi_link_text)
   \<and> crawl_loop [(smi_link_text, ascii ''/news/2025/03/02/media/'')] []
       = [fresh_item smi_link_text (ascii ''https://lenta.ru/news/2025/03/02/media/'')]"
  by code_simp

section \<open>Filtering a stored batch\<close>

lemma after_emotion_prefix: "after_underscore (ascii ''emotion_'' @ label) = label"
  by (simp add: after_underscore_def ascii_def)

lemma startswith_emotion_prefix: "startswith (ascii ''emotion_'' @ label) (ascii ''emotion_'')"
  by (simp add: startswith_def ascii_def)

lemma callback_emotion_eq:
  "callback_emotion st chat_id (ascii ''emotion_'' @ label)
     = Some (filter (\<lambda>news.
          lower (case predicted_emotion news of Some e \<Rightarrow> e | None \<Rightarrow> []) = lower label)
        (case user_context st chat_id of Some l \<Rightarrow> l | None \<Rightarrow> []))"
  by (simp add: callback_emotion_def after_emotion_prefix startswith_emotion_prefix Let_def)

lemma tag_and_store_stored:
  assumes "tag_and_store env chat_id aggregated_news st = (Some (tagged, pr), st')"
  shows "user_context st' chat_id = Some tagged
     \<and> (\<forall>item \<in> set tagged. \<exists>l. predicted_emotion item = Some l)"
proof -
  from assms have ne: "aggregated_news \<noteq> []"
    by (auto simp: tag_and_store_def split: if_splits)
  obtain tg st1 pr1 where
    r: "tag_loop env aggregated_news st (initial_progress aggregated_news) = (tg, st1, pr1)"
    by (cases "tag_loop env aggregated_news st (initial_progress aggregated_news)")
  with assms ne have eq: "tagged = tg"
    "st' = st1\<lparr>user_context := (user_context st1)(chat_id \<mapsto> tg)\<rparr>"
    by (auto simp: tag_and_store_def Let_def)
  note res = tag_loop_result [OF r]
  have "\<exists>l. predicted_emotion item = Some l" if "item \<in> set tg" for item
  proof -
    from that obtain i where "i < length tg" "item = tg ! i"
      by (auto simp: in_set_conv_nth)
    with res show ?thesis by auto
  qed
  with eq show ?thesis by simp
qed

text \<open>
  The loop and the calls it makes leave \<open>user_context\<close> alone, so a run of
  \<^verbatim>\<open>process_date_input\<close> changes it at its own conversation only.
\<close>

lemma get_first_sentence_context:
  "user_context (snd (get_first_sentence env u st)) = user_context st"
  by (simp add: get_first_sentence_def do_fetch_def logging_error_def Let_def
      split: sum.splits)

lemma top_label_context: "user_context (snd (top_label env t st)) = user_context st"
  by (simp add: top_label_def Let_def split: sum.splits list.splits)

lemma tag_item_context:
  assumes "tag_item env news st pr = (news', st', pr')"
  shows "user_context st' = user_context st"
proof -
  obtain fs st1 where g: "get_first_sentence env (url news) st = (fs, st1)"
    by (cases "get_first_sentence env (url news) st")
  with get_first_sentence_context [of env "url news" st]
  have c1: "user_context st1 = user_context st" by simp
  define t where "t = (if fs \<noteq> [] then headline news @ [46, 32] @ fs else headline news)"
  obtain r st2 where l: "top_label env t st1 = (r, st2)" by (cases "top_label env t st1")
  with top_label_context [of env t st1] have c2: "user_context st2 = user_context st1"
    by simp
  from assms g l have "st' = st2 \<or> (\<exists>msg. st' = logging_error msg st2)"
    by (auto simp: tag_item_def Let_def t_def split: sum.splits)
  then have "user_context st' = user_context st2" by (auto simp: logging_error_def)
  with c1 c2 show ?thesis by simp
qed

lemma tag_loop_context:
  "tag_loop env items st pr = (tagged, st', pr') \<Longrightarrow> user_context st' = user_context st"
proof (induction items arbitrary: st pr tagged st' pr')
  case Nil
  then show ?case by simp
next
  case (Cons news rest)
  obtain n1 st1 pr1 where i: "tag_item env news st pr = (n1, st1, pr1)"
    by (cases "tag_item env news st pr")
  obtain r2 st2 pr2 where r: "tag_loop env rest st1 pr1 = (r2, st2, pr2)"
    by (cases "tag_loop env rest st1 pr1")
  from Cons.prems i r have "st' = st2" by simp
  with Cons.IH [OF r] tag_item_context [OF i] show ?case by simp
qed

lemma tag_and_store_others:
  assumes "tag_and_store env chat_id aggregated_news st = (res, st')"
    and "other \<noteq> chat_id"
  shows "user_context st' other = user_context st other"
proof (cases "aggregated_news = []")
  case True
  with assms show ?thesis by (simp add: tag_and_store_def)
next
  case False
  obtain tg st1 pr1 where
    r: "tag_loop env aggregated_news st (initial_progress aggregated_news) = (tg, st1, pr1)"
    by (cases "tag_loop env aggregated_news st (initial_progress aggregated_news)")
  with assms(1) False
  have "st' = st1\<lparr>user_context := (user_context st1)(chat_id \<mapsto> tg)\<rparr>"
    by (auto simp: tag_and_store_def Let_def)
  with tag_loop_context [OF r] assms(2) show ?thesis by simp
qed

lemma tag_and_store_nothing:
  "tag_and_store env chat_id aggregated_news st = (None, st') \<Longrightarrow> st' = st"
  by (auto simp: tag_and_store_def Let_def split: if_splits prod.splits)

lemma callback_emotion_context:
  "user_context st' c = user_context st c \<Longrightarrow>
     callback_emotion st' c data = callback_emotion st c data"
  by (simp add: callback_emotion_def)

text \<open>
  Two runs, the first for conversation 7 with the three items and the second for
  conversation 8 with the third item alone, and the label asked for with a capital.
\<close>

lemma two_stores_filtered:
  "(case tag_and_store flaky_env 7 three_items initial_state of
      (Some (tagged, pr), st1) \<Rightarrow>
        map_option (map headline) (callback_emotion st1 7 (ascii ''emotion_'' @ capital_label))
          = Some [ascii ''First headline text'', ascii ''Third headline text'']
        \<and> user_context st1 8 = None
        \<and> (case tag_and_store flaky_env 8 (drop 2 three_items) st1 of
             (Some (tagged2, pr2), st2) \<Rightarrow>
               map_option (map headline)
                   (callback_emotion st2 8 (ascii ''emotion_'' @ capital_label))
                 = Some [ascii ''Third headline text'']
           | (None, st2) \<Rightarrow> False)
    | (None, st1) \<Rightarrow> False)"
  by code_simp

text \<open>
  Claim C4. After a batch was tagged and stored for a conversation, the handler returns
  the items of that batch whose label equals the requested one up to letter case, in
  the order of the batch, whatever was stored for the conversation before. A run for
  one conversation leaves the batch of every other conversation, and what the handler
  returns for it, as they were; a run that finds no news stores nothing. So the batch a
  conversation holds is the one its last run with news stored. In general the handler
  filters the batch the conversation holds, and returns the empty list for a
  conversation that holds none.
\<close>

theorem filter_by_emotion:
  "(tag_and_store env chat_id aggregated_news st = (Some (tagged, pr), st') \<longrightarrow>
      callback_emotion st' chat_id (ascii ''emotion_'' @ label)
        = Some (filter (\<lambda>news. case predicted_emotion news of
                   Some e \<Rightarrow> lower e = lower label | None \<Rightarrow> False) tagged))
   \<and> (tag_and_store env chat_id aggregated_news st = (res, st') \<and> other \<noteq> chat_id \<longrightarrow>
      user_context st' other = user_context st other
      \<and> callback_emotion st' other data = callback_emotion st other data)
   \<and> (tag_and_store env chat_id aggregated_news st = (None, st') \<longrightarrow> st' = st)
   \<and> (user_context st chat_id = Some batch \<longrightarrow>
      callback_emotion st chat_id (ascii ''emotion_'' @ label)
        = Some (filter (\<lambda>news.
             lower (case predicted_emotion news of Some e \<Rightarrow> e | None \<Rightarrow> []) = lower label)
           batch))
   \<and> (user_context st chat_id = None \<longrightarrow>
      callback_emotion st chat_id (ascii ''emotion_'' @ label) = Some [])"
proof (intro conjI impI)
  assume "tag_and_store env chat_id aggregated_news st = (Some (tagged, pr), st')"
  from tag_and_store_stored [OF this] have stored: "user_context st' chat_id = Some tagged"
    and labelled: "\<forall>item \<in> set tagged. \<exists>l. predicted_emotion item = Some l" by simp_all
  have "filter (\<lambda>news.
          lower (case predicted_emotion news of Some e \<Rightarrow> e | None \<Rightarrow> []) = lower label) tagged
      = filter (\<lambda>news. case predicted_emotion news of
                   Some e \<Rightarrow> lower e = lower label | None \<Rightarrow> False) tagged"
    using labelled by (intro filter_cong) auto
  with stored show "callback_emotion st' chat_id (ascii ''emotion_'' @ label)
        = Some (filter (\<lambda>news. case predicted_emotion news of
                   Some e \<Rightarrow> lower e = lower label | None \<Rightarrow> False) tagged)"
    by (simp add: callback_emotion_eq)
next
  assume a: "tag_and_store env chat_id aggregated_news st = (res, st') \<and> other \<noteq> chat_id"
  then have same: "user_context st' other = user_context st other"
    using tag_and_store_others [of env chat_id aggregated_news st res st' other] by blast
  then show "user_context st' other = user_context st other" .
  from same show "callback_emotion st' other data = callback_emotion st other data"
    by (rule callback_emotion_context)
next
  assume "tag_and_store env chat_id aggregated_news st = (None, st')"
  then show "st' = st" by (rule tag_and_store_nothing)
next
  assume "user_context st chat_id = Some batch"
  then show "callback_emotion st chat_id (ascii ''emotion_'' @ label)
        = Some (filter (\<lambda>news.
             lower (case predicted_emotion news of Some e \<Rightarrow> e | None \<Rightarrow> []) = lower label)
           batch)"
    by (simp add: callback_emotion_eq)
next
  assume "user_context st chat_id = None"
  then show "callback_emotion st chat_id (ascii ''emotion_'' @ label) = Some []"
    by (simp add: callback_emotion_eq)
qed

theorem filter_by_emotion_witness:
  "\<exists>tagged pr st1 tagged2 pr2 st2.
     tag_and_store flaky_env 7 three_items initial_state = (Some (tagged, pr), st1)
     \<and> tag_and_store flaky_env 8 (drop 2 three_items) st1 = (Some (tagged2, pr2), st2)
     \<and> tag_and_store flaky_env 7 [] st2 = (None, st2)
     \<and> user_context st1 7 = Some tagged
     \<and> user_context st1 8 = None
     \<and> callback_emotion st1 8 (ascii ''emotion_'' @ capital_label) = Some []
     \<and> callback_emotion st1 7 (ascii ''emotion_'' @ capital_label)
         = Some (filter (\<lambda>news. case predicted_emotion news of
                    Some e \<Rightarrow> lower e = lower capital_label | None \<Rightarrow> False) tagged)
     \<and> map_option (map headline) (callback_emotion st1 7 (ascii ''emotion_'' @ capital_label))
         = Some [ascii ''First headline text'', ascii ''Third headline text'']
     \<and> user_context st2 7 = Some tagged
     \<and> callback_emotion st2 7 (ascii ''emotion_'' @ capital_label)
         = callback_emotion st1 7 (ascii ''emotion_'' @ capital_label)
     \<and> map_option (map headline) (callback_emotion st2 8 (ascii ''emotion_'' @ capital_label))
         = Some [ascii ''Third headline text'']"
proof -
  obtain res1 st1 where r1: "tag_and_store flaky_env 7 three_items initial_state = (res1, st1)"
    by (cases "tag_and_store flaky_env 7 three_items initial_state")
  with two_stores_filtered obtain tagged pr where res1: "res1 = Some (tagged, pr)"
    by (cases res1) auto
  obtain res2 st2 where r2: "tag_and_store flaky_env 8 (drop 2 three_items) st1 = (res2, st2)"
    by (cases "tag_and_store flaky_env 8 (drop 2 three_items) st1")
  with two_stores_filtered r1 res1 obtain tagged2 pr2 where res2: "res2 = Some (tagged2, pr2)"
    by (cases res2) auto
  from r1 res1 have e1:
    "tag_and_store flaky_env 7 three_items initial_state = (Some (tagged, pr), st1)" by simp
  from r2 res2 have e2:
    "tag_and_store flaky_env 8 (drop 2 three_items) st1 = (Some (tagged2, pr2), st2)" by simp
  have e3: "tag_and_store flaky_env 7 [] st2 = (None, st2)" by (simp add: tag_and_store_def)
  from two_stores_filtered e1 e2 have ev:
    "map_option (map headline) (callback_emotion st1 7 (ascii ''emotion_'' @ capital_label))
       = Some [ascii ''First headline text'', ascii ''Third headline text'']"
    "user_context st1 8 = None"
    "map_option (map headline) (callback_emotion st2 8 (ascii ''emotion_'' @ capital_label))
       = Some [ascii ''Third headline text'']"
    by simp_all
  from tag_and_store_stored [OF e1] have stored: "user_context st1 7 = Some tagged" by simp
  note first = filter_by_emotion [where env = flaky_env and chat_id = 7
      and aggregated_news = three_items and st = initial_state and tagged = tagged
      and pr = pr and st' = st1 and label = capital_label]
  note second = filter_by_emotion [where env = flaky_env and chat_id = 8
      and aggregated_news = "drop 2 three_items" and st = st1 and res = "Some (tagged2, pr2)"
      and st' = st2 and other = 7 and data = "ascii ''emotion_'' @ capital_label"
      and label = capital_label]
  note empty = filter_by_emotion [where env = flaky_env and chat_id = 7
      and aggregated_news = "[]" and st = st2 and st' = st2]
  note held = filter_by_emotion [where st = st1 and chat_id = 7 and batch = tagged
      and label = capital_label]
  from first e1 have c1:
    "callback_emotion st1 7 (ascii ''emotion_'' @ capital_label)
       = Some (filter (\<lambda>news. case predicted_emotion news of
                  Some e \<Rightarrow> lower e = lower capital_label | None \<Rightarrow> False) tagged)"
    by simp
  from second e2 have c2: "user_context st2 7 = user_context st1 7"
    "callback_emotion st2 7 (ascii ''emotion_'' @ capital_label)
       = callback_emotion st1 7 (ascii ''emotion_'' @ capital_label)"
    by simp_all
  from second ev(2) have c5:
    "callback_emotion st1 8 (ascii ''emotion_'' @ capital_label) = Some []" by simp
  from empty e3 have c3: "st2 = st2" by simp
  from held stored have c4:
    "callback_emotion st1 7 (ascii ''emotion_'' @ capital_label)
       = Some (filter (\<lambda>news.
            lower (case predicted_emotion news of Some e \<Rightarrow> e | None \<Rightarrow> [])
              = lower capital_label) tagged)"
    by simp
  from e1 e2 e3 stored ev c1 c2 c5 show ?thesis by simp
qed

end
